theory Spec2Isabelle
  imports Complex_Main "HOL-Library.AList"
begin

section \<open>Python values and errors\<close>

text \<open>
  The development embeds \<^verbatim>\<open>src/geoglows/streamflow.py\<close>. Python floats are
  idealised as real numbers; a missing value (pandas' NaN) is \<open>None\<close>. Every
  \<^verbatim>\<open>raise\<close> of the source, and every failing lookup it performs, is an
  \<open>Inl\<close> result carrying the exception.
\<close>

datatype pyerror =
    ValueError string
  | KeyError string
  | IndexError string
  | TypeError string
  | ConnectionError string

type_synonym cell = "real option"

text \<open>Keyword arguments such as \<^verbatim>\<open>reach_id\<close> and \<^verbatim>\<open>drain_area\<close>:
  absent (\<^verbatim>\<open>None\<close>), an integer or a string.\<close>

datatype pyval = PyNone | PyInt int | PyStr string

text \<open>Python's truth value of an object, as tested by \<^verbatim>\<open>if reach_id:\<close>.\<close>

fun truthy :: "pyval \<Rightarrow> bool" where
  "truthy PyNone = False"
| "truthy (PyInt n) = (n \<noteq> 0)"
| "truthy (PyStr s) = (s \<noteq> [])"

fun str_nat :: "nat \<Rightarrow> string" where
  "str_nat n =
     (if n < 10 then [''0123456789'' ! n]
      else str_nat (n div 10) @ [''0123456789'' ! (n mod 10)])"

declare str_nat.simps [simp del]

text \<open>\<^verbatim>\<open>str(x)\<close>.\<close>

fun py_str :: "pyval \<Rightarrow> string" where
  "py_str PyNone = ''None''"
| "py_str (PyInt n) = (if n < 0 then CHR ''-'' # str_nat (nat (- n)) else str_nat (nat n))"
| "py_str (PyStr s) = s"

section \<open>Plotting auxiliary functions\<close>

text \<open>
  \<^verbatim>\<open>
  def __build_title(base, reach_id, drain_area):
      if reach_id:
          base += '<br>Stream ID: ' + str(reach_id)
      if drain_area:
          base += '<br>Upstream Drainage Area: ' + str(drain_area)
      return base
  \<close>
\<close>

definition build_title :: "string \<Rightarrow> pyval \<Rightarrow> pyval \<Rightarrow> string" where
  "build_title base reach_id drain_area =
     (let base1 = (if truthy reach_id then base @ ''<br>Stream ID: '' @ py_str reach_id else base);
          base2 = (if truthy drain_area
                   then base1 @ ''<br>Upstream Drainage Area: '' @ py_str drain_area else base1)
      in base2)"

text \<open>
  A value on the y axis of a shape: the plotting functions pass whole
  return-period columns (\<^verbatim>\<open>rperiods['return_period_2']\<close>) as \<open>r2\<close>,
  \<open>r10\<close>, \<open>r20\<close>, while \<^verbatim>\<open>1.2 * y_max\<close> is a single number.
\<close>

datatype yval = Scalar cell | Column "cell list"

record 't shape =
  shape_type :: string
  x0 :: 't
  x1 :: 't
  y0 :: yval
  y1 :: yval
  line_width :: nat
  opacity :: real
  fillcolor :: string

text \<open>Multiplication of floats: NaN propagates.\<close>

definition times_cell :: "real \<Rightarrow> cell \<Rightarrow> cell" where
  "times_cell c v = map_option (\<lambda>x. c * x) v"

definition rperiod_shapes ::
  "'t \<Rightarrow> 't \<Rightarrow> yval \<Rightarrow> yval \<Rightarrow> yval \<Rightarrow> cell \<Rightarrow> 't shape list" where
  "rperiod_shapes startdate enddate r2 r10 r20 y_max =
     [ \<lparr>shape_type = ''rect'', x0 = startdate, x1 = enddate, y0 = r2, y1 = r10,
        line_width = 0, opacity = 0.4, fillcolor = ''yellow''\<rparr>,
       \<lparr>shape_type = ''rect'', x0 = startdate, x1 = enddate, y0 = r10, y1 = r20,
        line_width = 0, opacity = 0.4, fillcolor = ''red''\<rparr>,
       \<lparr>shape_type = ''rect'', x0 = startdate, x1 = enddate, y0 = r20,
        y1 = Scalar (times_cell 1.2 y_max),
        line_width = 0, opacity = 0.4, fillcolor = ''purple''\<rparr> ]"


section \<open>Tables\<close>

text \<open>
  A pandas \<^verbatim>\<open>DataFrame\<close>: the row labels and the named columns, in their order.
  In a frame built by pandas every column is as long as the index.
\<close>

record ('i, 'c) dataframe =
  df_index :: "'i list"
  df_columns :: "(string \<times> 'c list) list"

text \<open>An argument that the caller may or may not have given as a \<^verbatim>\<open>DataFrame\<close>
  (the \<^verbatim>\<open>isinstance\<close> test of the plotting functions).\<close>

datatype ('i, 'c) pyobj = DataFrame "('i, 'c) dataframe" | NotDataFrame

definition and_then :: "'e + 'a \<Rightarrow> ('a \<Rightarrow> 'e + 'b) \<Rightarrow> 'e + 'b" where
  "and_then m f = (case m of Inl e \<Rightarrow> Inl e | Inr v \<Rightarrow> f v)"

text \<open>\<^verbatim>\<open>df[name]\<close>\<close>

definition get_column :: "('i, 'c) dataframe \<Rightarrow> string \<Rightarrow> pyerror + 'c list" where
  "get_column df name =
     (case map_of (df_columns df) name of
        None \<Rightarrow> Inl (KeyError name)
      | Some col \<Rightarrow> Inr col)"

text \<open>\<^verbatim>\<open>xs[0]\<close> and \<^verbatim>\<open>xs[-1]\<close>\<close>

definition first_item :: "'a list \<Rightarrow> pyerror + 'a" where
  "first_item xs =
     (case xs of [] \<Rightarrow> Inl (IndexError ''list index out of range'') | x # _ \<Rightarrow> Inr x)"

definition last_item :: "'a list \<Rightarrow> pyerror + 'a" where
  "last_item xs =
     (if xs = [] then Inl (IndexError ''list index out of range'') else Inr (last xs))"

text \<open>\<^verbatim>\<open>series.dropna(axis=0)\<close>: its values, and its index.\<close>

definition dropna :: "cell list \<Rightarrow> cell list" where
  "dropna col = filter (\<lambda>v. v \<noteq> None) col"

definition dropna_index :: "'i list \<Rightarrow> cell list \<Rightarrow> 'i list" where
  "dropna_index idx col = map fst (filter (\<lambda>(i, v). v \<noteq> None) (zip idx col))"

text \<open>
  Python's builtin \<^verbatim>\<open>max\<close> over floats: it keeps the first item and replaces
  it by a later one only when \<^verbatim>\<open>later > kept\<close>, and every comparison with NaN
  is false.
\<close>

fun cell_gt :: "cell \<Rightarrow> cell \<Rightarrow> bool" where
  "cell_gt (Some a) (Some b) = (a > b)"
| "cell_gt _ _ = False"

definition py_max :: "cell list \<Rightarrow> pyerror + cell" where
  "py_max xs =
     (case xs of
        [] \<Rightarrow> Inl (ValueError ''max() arg is an empty sequence'')
      | x # rest \<Rightarrow> Inr (foldl (\<lambda>m v. if cell_gt v m then v else m) x rest))"

text \<open>\<^verbatim>\<open>kwargs.get(key, default)\<close>\<close>

definition kwargs_get :: "(string \<times> pyval) list \<Rightarrow> string \<Rightarrow> pyval \<Rightarrow> pyval" where
  "kwargs_get kwargs k d = (case map_of kwargs k of None \<Rightarrow> d | Some v \<Rightarrow> v)"

section \<open>Charts\<close>

text \<open>
  A \<^verbatim>\<open>go.Scatter\<close> trace (its name, x and y values and the remaining styling
  arguments as written in the source), a \<^verbatim>\<open>go.Layout\<close> and a
  \<^verbatim>\<open>go.Figure\<close>.
\<close>

record 'x trace =
  trace_name :: "string option"
  trace_x :: "'x list"
  trace_y :: "cell list"
  trace_style :: "(string \<times> string) list"

record 't layout =
  title :: string
  xaxis :: "(string \<times> string) list"
  yaxis_title :: string
  yaxis_range :: "cell list"
  shapes :: "'t shape list"

record ('x, 't) figure =
  fig_data :: "'x trace list"
  fig_layout :: "'t layout"

text \<open>The keys and values of the \<^verbatim>\<open>plot_data\<close> dictionaries.\<close>

datatype pykey = KStr string | KInt int

datatype 'i pdval = PV pyval | PIdx "'i list" | PCells "cell list" | PCell cell

text \<open>
  What a plotting function returns: the dictionary (\<^verbatim>\<open>'json'\<close>), the figure
  (\<^verbatim>\<open>'plotly'\<close>), the figure rendered by \<^verbatim>\<open>offline_plot\<close> as a
  \<^verbatim>\<open>div\<close> (\<^verbatim>\<open>'plotly_html'\<close>), or nothing (the final bare
  \<^verbatim>\<open>return\<close>).
\<close>

datatype ('d, 'f) plot_result = Json 'd | Plotly 'f | PlotlyHtml 'f | NoResult

definition outformats :: "pyval list" where
  "outformats = [PyStr ''json'', PyStr ''plotly'', PyStr ''plotly_html'']"

definition emit :: "pyval \<Rightarrow> 'f \<Rightarrow> ('d, 'f) plot_result" where
  "emit outformat fig =
     (if outformat = PyStr ''plotly'' then Plotly fig
      else if outformat = PyStr ''plotly_html'' then PlotlyHtml fig
      else NoResult)"

definition not_a_dataframe :: pyerror where
  "not_a_dataframe = ValueError ''Sorry, I only process pandas dataframes right now''"

definition scatter ::
  "string \<Rightarrow> 'x list \<Rightarrow> cell list \<Rightarrow> (string \<times> string) list \<Rightarrow> 'x trace" where
  "scatter name xs ys style =
     \<lparr>trace_name = Some name, trace_x = xs, trace_y = ys, trace_style = style\<rparr>"

definition streamflow_axis :: string where
  "streamflow_axis = ''Streamflow (m<sup>3</sup>/s)''"

definition invalid_outformat_html :: pyerror where
  "invalid_outformat_html = ValueError ''invalid outformat specified. pick json or html''"

definition invalid_outformat_plotly :: pyerror where
  "invalid_outformat_plotly =
     ValueError ''invalid outformat specified. pick json or plotly or plotly_html''"

text \<open>The six traces that \<^verbatim>\<open>hydroviewer_plot\<close> and \<^verbatim>\<open>forecast_plot\<close>
  build from the forecast statistics, written identically in both.\<close>

definition meanplot :: "'x list \<Rightarrow> cell list \<Rightarrow> 'x trace" where
  "meanplot xs ys = scatter ''Mean'' xs ys [(''line.color'', ''blue'')]"

definition maxplot :: "'x list \<Rightarrow> cell list \<Rightarrow> 'x trace" where
  "maxplot xs ys =
     scatter ''Max'' xs ys
       [(''fill'', ''tonexty''), (''mode'', ''lines''),
        (''line.color'', ''rgb(152, 251, 152)''), (''line.width'', ''0'')]"

definition minplot :: "'x list \<Rightarrow> cell list \<Rightarrow> 'x trace" where
  "minplot xs ys =
     scatter ''Min'' xs ys
       [(''fill'', ''None''), (''mode'', ''lines''), (''line.color'', ''rgb(152, 251, 152)'')]"

definition stdlowplot :: "'x list \<Rightarrow> cell list \<Rightarrow> 'x trace" where
  "stdlowplot xs ys =
     scatter ''Std. Dev. Lower'' xs ys
       [(''fill'', ''tonexty''), (''mode'', ''lines''),
        (''line.color'', ''rgb(152, 251, 152)''), (''line.width'', ''0'')]"

definition stdupplot :: "'x list \<Rightarrow> cell list \<Rightarrow> 'x trace" where
  "stdupplot xs ys =
     scatter ''Std. Dev. Upper'' xs ys
       [(''fill'', ''tonexty''), (''mode'', ''lines''),
        (''line.width'', ''0''), (''line.color'', ''rgb(34, 139, 34)'')]"

definition hiresplot :: "'x list \<Rightarrow> cell list \<Rightarrow> 'x trace" where
  "hiresplot xs ys = scatter ''Higher Resolution'' xs ys [(''line.color'', ''black'')]"

text \<open>
  \<^verbatim>\<open>hydroviewer_plot(records, stats, rperiods, **kwargs)\<close>. The two validations
  come first, in the order of the source; the entries of \<^verbatim>\<open>plot_data\<close> are
  computed in the order the dictionary display lists them, so that the first failing
  lookup is the one Python reports.
\<close>

definition hydroviewer_plot ::
  "('i::linorder, cell) pyobj \<Rightarrow> ('i, cell) dataframe \<Rightarrow> ('r, cell) dataframe \<Rightarrow>
   (string \<times> pyval) list \<Rightarrow>
   pyerror + ((string \<times> 'i pdval) list, ('i, 'i) figure) plot_result" where
  "hydroviewer_plot records stats rperiods kwargs =
    (let reach_id = kwargs_get kwargs ''reach_id'' PyNone;
         drain_area = kwargs_get kwargs ''drain_area'' PyNone;
         outformat = kwargs_get kwargs ''outformat'' (PyStr ''plotly'')
     in case records of
          NotDataFrame \<Rightarrow> Inl not_a_dataframe
        | DataFrame recs \<Rightarrow>
            if outformat \<notin> set outformats then Inl invalid_outformat_html
            else
              let records_dates = df_index recs;
                  dates = df_index stats
              in
              and_then (first_item records_dates) (\<lambda>r_first.
              and_then (first_item dates) (\<lambda>d_first.
              let startdate = min r_first d_first in
              and_then (last_item records_dates) (\<lambda>r_last.
              and_then (last_item dates) (\<lambda>d_last.
              let enddate = max r_last d_last in
              and_then (get_column stats ''mean (m^3/s)'') (\<lambda>mean_col.
              and_then (get_column recs ''streamflow (m^3/s)'') (\<lambda>flow_col.
              and_then (get_column stats ''max (m^3/s)'') (\<lambda>max_col.
              and_then (py_max max_col) (\<lambda>y_max.
              and_then (get_column stats ''min (m^3/s)'') (\<lambda>min_col.
              and_then (get_column stats ''std_dev_range_lower (m^3/s)'') (\<lambda>stdlow_col.
              and_then (get_column stats ''std_dev_range_upper (m^3/s)'') (\<lambda>stdup_col.
              and_then (get_column stats ''high_res (m^3/s)'') (\<lambda>hires_col.
              and_then (get_column rperiods ''return_period_2'') (\<lambda>r2.
              and_then (get_column rperiods ''return_period_10'') (\<lambda>r10.
              and_then (get_column rperiods ''return_period_20'') (\<lambda>r20.
              let x_ensembles = dropna_index dates mean_col;
                  x_hires = dropna_index dates mean_col;
                  x_records = records_dates;
                  recorded_flows = dropna flow_col;
                  plot_data =
                    [(''reach_id'', PV reach_id),
                     (''drain_area'', PV drain_area),
                     (''x_ensembles'', PIdx x_ensembles),
                     (''x_hires'', PIdx x_hires),
                     (''x_records'', PIdx x_records),
                     (''recorded_flows'', PCells recorded_flows),
                     (''y_max'', PCell y_max),
                     (''min'', PCells (dropna min_col)),
                     (''mean'', PCells (dropna mean_col)),
                     (''max'', PCells (dropna max_col)),
                     (''stdlow'', PCells (dropna stdlow_col)),
                     (''stdup'', PCells (dropna stdup_col)),
                     (''hires'', PCells (dropna hires_col)),
                     (''r2'', PCells r2),
                     (''r10'', PCells r10),
                     (''r20'', PCells r20)]
              in
              if outformat = PyStr ''json'' then Inr (Json plot_data)
              else
                let recorded = scatter ''1st day forecasted flows'' x_records recorded_flows
                                 [(''line.color'', ''orange'')];
                    lay = \<lparr>title = build_title ''Forecasted Streamflow'' reach_id drain_area,
                           xaxis = [(''title'', ''Date'')],
                           yaxis_title = streamflow_axis,
                           yaxis_range = [Some 0, times_cell 1.2 y_max],
                           shapes = rperiod_shapes startdate enddate
                                      (Column r2) (Column r10) (Column r20) y_max\<rparr>;
                    fig = \<lparr>fig_data =
                             [recorded,
                              minplot x_ensembles (dropna min_col),
                              stdlowplot x_ensembles (dropna stdlow_col),
                              stdupplot x_ensembles (dropna stdup_col),
                              maxplot x_ensembles (dropna max_col),
                              meanplot x_ensembles (dropna mean_col),
                              hiresplot x_hires (dropna hires_col)],
                           fig_layout = lay\<rparr>
                in Inr (emit outformat fig)))))))))))))))))"

text \<open>\<^verbatim>\<open>forecast_plot(stats, rperiods, **kwargs)\<close>\<close>

definition forecast_plot ::
  "('i, cell) pyobj \<Rightarrow> ('r, cell) dataframe \<Rightarrow> (string \<times> pyval) list \<Rightarrow>
   pyerror + ((string \<times> 'i pdval) list, ('i, 'i) figure) plot_result" where
  "forecast_plot stats_arg rperiods kwargs =
    (let reach_id = kwargs_get kwargs ''reach_id'' PyNone;
         drain_area = kwargs_get kwargs ''drain_area'' PyNone;
         outformat = kwargs_get kwargs ''outformat'' (PyStr ''plotly'')
     in case stats_arg of
          NotDataFrame \<Rightarrow> Inl not_a_dataframe
        | DataFrame stats \<Rightarrow>
            if outformat \<notin> set outformats then Inl invalid_outformat_html
            else
              let dates = df_index stats in
              and_then (first_item dates) (\<lambda>startdate.
              and_then (last_item dates) (\<lambda>enddate.
              and_then (get_column stats ''mean (m^3/s)'') (\<lambda>mean_col.
              and_then (get_column stats ''max (m^3/s)'') (\<lambda>max_col.
              and_then (py_max max_col) (\<lambda>y_max.
              and_then (get_column stats ''min (m^3/s)'') (\<lambda>min_col.
              and_then (get_column stats ''std_dev_range_lower (m^3/s)'') (\<lambda>stdlow_col.
              and_then (get_column stats ''std_dev_range_upper (m^3/s)'') (\<lambda>stdup_col.
              and_then (get_column stats ''high_res (m^3/s)'') (\<lambda>hires_col.
              and_then (get_column rperiods ''return_period_2'') (\<lambda>r2.
              and_then (get_column rperiods ''return_period_10'') (\<lambda>r10.
              and_then (get_column rperiods ''return_period_20'') (\<lambda>r20.
              let x_ensembles = dropna_index dates mean_col;
                  x_hires = dropna_index dates mean_col;
                  plot_data =
                    [(''reach_id'', PV reach_id),
                     (''drain_area'', PV drain_area),
                     (''x_ensembles'', PIdx x_ensembles),
                     (''x_hires'', PIdx x_hires),
                     (''y_max'', PCell y_max),
                     (''min'', PCells (dropna min_col)),
                     (''mean'', PCells (dropna mean_col)),
                     (''max'', PCells (dropna max_col)),
                     (''stdlow'', PCells (dropna stdlow_col)),
                     (''stdup'', PCells (dropna stdup_col)),
                     (''hires'', PCells (dropna hires_col)),
                     (''r2'', PCells r2),
                     (''r10'', PCells r10),
                     (''r20'', PCells r20)]
              in
              if outformat = PyStr ''json'' then Inr (Json plot_data)
              else
                let lay = \<lparr>title = build_title ''Forecasted Streamflow'' reach_id drain_area,
                           xaxis = [(''title'', ''Date'')],
                           yaxis_title = streamflow_axis,
                           yaxis_range = [Some 0, times_cell 1.2 y_max],
                           shapes = rperiod_shapes startdate enddate
                                      (Column r2) (Column r10) (Column r20) y_max\<rparr>;
                    fig = \<lparr>fig_data =
                             [minplot x_ensembles (dropna min_col),
                              stdlowplot x_ensembles (dropna stdlow_col),
                              stdupplot x_ensembles (dropna stdup_col),
                              maxplot x_ensembles (dropna max_col),
                              meanplot x_ensembles (dropna mean_col),
                              hiresplot x_hires (dropna hires_col)],
                           fig_layout = lay\<rparr>
                in Inr (emit outformat fig))))))))))))))"

text \<open>\<^verbatim>\<open>record_plot(records, rperiods, **kwargs)\<close>\<close>

definition record_plot ::
  "('i, cell) pyobj \<Rightarrow> ('r, cell) dataframe \<Rightarrow> (string \<times> pyval) list \<Rightarrow>
   pyerror + ((string \<times> 'i pdval) list, ('i, 'i) figure) plot_result" where
  "record_plot records rperiods kwargs =
    (let reach_id = kwargs_get kwargs ''reach_id'' PyNone;
         drain_area = kwargs_get kwargs ''drain_area'' PyNone;
         outformat = kwargs_get kwargs ''outformat'' (PyStr ''plotly'')
     in case records of
          NotDataFrame \<Rightarrow> Inl not_a_dataframe
        | DataFrame recs \<Rightarrow>
            if outformat \<notin> set outformats then Inl invalid_outformat_html
            else
              let dates = df_index recs in
              and_then (first_item dates) (\<lambda>startdate.
              and_then (last_item dates) (\<lambda>enddate.
              and_then (get_column recs ''streamflow (m^3/s)'') (\<lambda>flow_col.
              and_then (py_max flow_col) (\<lambda>y_max.
              and_then (get_column rperiods ''return_period_2'') (\<lambda>r2.
              and_then (get_column rperiods ''return_period_10'') (\<lambda>r10.
              and_then (get_column rperiods ''return_period_20'') (\<lambda>r20.
              let plot_data =
                    [(''reach_id'', PV reach_id),
                     (''drain_area'', PV drain_area),
                     (''x_values'', PIdx dates),
                     (''recorded_flows'', PCells (dropna flow_col)),
                     (''y_max'', PCell y_max),
                     (''r2'', PCells r2),
                     (''r10'', PCells r10),
                     (''r20'', PCells r20)]
              in
              if outformat = PyStr ''json'' then Inr (Json plot_data)
              else
                let recorded = scatter ''1st day forecasted flows'' dates (dropna flow_col)
                                 [(''line.color'', ''blue'')];
                    lay = \<lparr>title = build_title ''Previously Forecasted Streamflow''
                                     reach_id drain_area,
                           xaxis = [(''title'', ''Date'')],
                           yaxis_title = streamflow_axis,
                           yaxis_range = [Some 0, times_cell 1.2 y_max],
                           shapes = rperiod_shapes startdate enddate
                                      (Column r2) (Column r10) (Column r20) y_max\<rparr>;
                    fig = \<lparr>fig_data = [recorded], fig_layout = lay\<rparr>
                in Inr (emit outformat fig)))))))))"

text \<open>
  \<^verbatim>\<open>int(s)\<close> on a string: surrounding whitespace is stripped, one sign is
  allowed, and the rest must be decimal digits. (Python also accepts underscores
  between digits and non-ASCII digits; the model rejects them.)
\<close>

definition is_space :: "char \<Rightarrow> bool" where
  "is_space c = (c \<in> set [CHR '' '', CHR 0x09, CHR 0x0A, CHR 0x0B, CHR 0x0C, CHR 0x0D])"

definition is_digit :: "char \<Rightarrow> bool" where
  "is_digit c = (c \<in> set ''0123456789'')"

definition strip :: "string \<Rightarrow> string" where
  "strip s = rev (dropWhile is_space (rev (dropWhile is_space s)))"

definition digits_value :: "string \<Rightarrow> int" where
  "digits_value ds = foldl (\<lambda>a c. 10 * a + (of_char c - 48)) 0 ds"

definition py_int :: "string \<Rightarrow> pyerror + int" where
  "py_int s =
     (let t = strip s;
          neg = (t \<noteq> [] \<and> hd t = CHR ''-'');
          ds = (if t \<noteq> [] \<and> (hd t = CHR ''-'' \<or> hd t = CHR ''+'') then tl t else t)
      in if ds \<noteq> [] \<and> list_all is_digit ds
         then Inr (if neg then - digits_value ds else digits_value ds)
         else Inl (ValueError (''invalid literal for int() with base 10: '' @ s)))"

text \<open>\<^verbatim>\<open>plot_data[k]\<close> for an ensemble number \<open>k\<close>.\<close>

definition member_flows :: "(pykey \<times> 'i pdval) list \<Rightarrow> int \<Rightarrow> pyerror + cell list" where
  "member_flows plot_data k =
     (case map_of plot_data (KInt k) of
        Some (PCells ys) \<Rightarrow> Inr ys
      | _ \<Rightarrow> Inl (KeyError (py_str (PyInt k))))"

text \<open>
  The loop of \<^verbatim>\<open>ensembles_plot\<close> over the columns:
  \<^verbatim>\<open>
  for ensemble in ensembles.columns:
      plot_data[int(ensemble[9:11])] = ensembles[ensemble].dropna(axis=0).tolist()
      max_flows.append(max(plot_data[int(ensemble[9:11])]))
  \<close>
\<close>

fun ensembles_loop ::
  "(string \<times> cell list) list \<Rightarrow> (pykey \<times> 'i pdval) list \<Rightarrow> cell list \<Rightarrow>
   pyerror + ((pykey \<times> 'i pdval) list \<times> cell list)" where
  "ensembles_loop [] plot_data max_flows = Inr (plot_data, max_flows)"
| "ensembles_loop ((ensemble, col) # rest) plot_data max_flows =
     (case py_int (take 2 (drop 9 ensemble)) of
        Inl e \<Rightarrow> Inl e
      | Inr k \<Rightarrow>
          (case py_max (dropna col) of
             Inl e \<Rightarrow> Inl e
           | Inr m \<Rightarrow>
               ensembles_loop rest
                 (AList.update (KInt k) (PCells (dropna col)) plot_data) (max_flows @ [m])))"

text \<open>
  \<^verbatim>\<open>
  for i in range(1, 52):
      scatters.append(go.Scatter(name='Ensemble ' + str(i), x=plot_data['x_1-51'], y=plot_data[i]))
  \<close>
\<close>

fun member_scatters ::
  "nat list \<Rightarrow> (pykey \<times> 'i pdval) list \<Rightarrow> 'i list \<Rightarrow> pyerror + 'i trace list" where
  "member_scatters [] plot_data xs = Inr []"
| "member_scatters (i # rest) plot_data xs =
     (case member_flows plot_data (int i) of
        Inl e \<Rightarrow> Inl e
      | Inr ys \<Rightarrow>
          (case member_scatters rest plot_data xs of
             Inl e \<Rightarrow> Inl e
           | Inr ts \<Rightarrow> Inr (scatter (''Ensemble '' @ str_nat i) xs ys [] # ts)))"

text \<open>\<^verbatim>\<open>ensembles_plot(ensembles, rperiods, **kwargs)\<close>\<close>

definition ensembles_plot ::
  "('i, cell) pyobj \<Rightarrow> ('r, cell) dataframe \<Rightarrow> (string \<times> pyval) list \<Rightarrow>
   pyerror + ((pykey \<times> 'i pdval) list, ('i, 'i) figure) plot_result" where
  "ensembles_plot ensembles_arg rperiods kwargs =
    (let reach_id = kwargs_get kwargs ''reach_id'' PyNone;
         drain_area = kwargs_get kwargs ''drain_area'' PyNone;
         outformat = kwargs_get kwargs ''outformat'' (PyStr ''plotly'')
     in case ensembles_arg of
          NotDataFrame \<Rightarrow> Inl not_a_dataframe
        | DataFrame ensembles \<Rightarrow>
            if outformat \<notin> set outformats then Inl invalid_outformat_html
            else
              let dates = df_index ensembles in
              and_then (first_item dates) (\<lambda>startdate.
              and_then (last_item dates) (\<lambda>enddate.
              and_then (get_column ensembles ''ensemble_01 (m^3/s)'') (\<lambda>col_01.
              and_then (get_column ensembles ''ensemble_52 (m^3/s)'') (\<lambda>col_52.
              and_then (get_column rperiods ''return_period_2'') (\<lambda>r2.
              and_then (get_column rperiods ''return_period_10'') (\<lambda>r10.
              and_then (get_column rperiods ''return_period_20'') (\<lambda>r20.
              let x_1_51 = dropna_index dates col_01;
                  x_52 = dropna_index dates col_52;
                  plot_data0 =
                    [(KStr ''reach_id'', PV reach_id),
                     (KStr ''drain_area'', PV drain_area),
                     (KStr ''x_1-51'', PIdx x_1_51),
                     (KStr ''x_52'', PIdx x_52),
                     (KStr ''r2'', PCells r2),
                     (KStr ''r10'', PCells r10),
                     (KStr ''r20'', PCells r20)]
              in
              and_then (ensembles_loop (df_columns ensembles) plot_data0 []) (\<lambda>(plot_data1, max_flows).
              and_then (py_max max_flows) (\<lambda>y_max.
              let plot_data = AList.update (KStr ''y_max'') (PCell y_max) plot_data1 in
              if outformat = PyStr ''json'' then Inr (Json plot_data)
              else
                and_then (member_flows plot_data 52) (\<lambda>flows_52.
                and_then (member_scatters [1..<52] plot_data x_1_51) (\<lambda>members.
                let scatters = scatter ''High Resolution'' x_52 flows_52 [(''line.color'', ''black'')]
                                 # members;
                    lay = \<lparr>title = build_title ''Ensemble Predicted Streamflow''
                                     reach_id drain_area,
                           xaxis = [(''title'', ''Date'')],
                           yaxis_title = streamflow_axis,
                           yaxis_range = [Some 0, times_cell 1.2 y_max],
                           shapes = rperiod_shapes startdate enddate
                                      (Column r2) (Column r10) (Column r20) y_max\<rparr>;
                    fig = \<lparr>fig_data = scatters, fig_layout = lay\<rparr>
                in Inr (emit outformat fig)))))))))))))"

text \<open>\<^verbatim>\<open>historical_plot(hist, rperiods, **kwargs)\<close>\<close>

definition historical_plot ::
  "('i, cell) pyobj \<Rightarrow> ('r, cell) dataframe \<Rightarrow> (string \<times> pyval) list \<Rightarrow>
   pyerror + ((string \<times> 'i pdval) list, ('i, 'i) figure) plot_result" where
  "historical_plot hist_arg rperiods kwargs =
    (let reach_id = kwargs_get kwargs ''reach_id'' PyNone;
         drain_area = kwargs_get kwargs ''drain_area'' PyNone;
         outformat = kwargs_get kwargs ''outformat'' (PyStr ''plotly'')
     in case hist_arg of
          NotDataFrame \<Rightarrow> Inl not_a_dataframe
        | DataFrame hist \<Rightarrow>
            if outformat \<notin> set outformats then Inl invalid_outformat_plotly
            else
              let dates = df_index hist in
              and_then (first_item dates) (\<lambda>startdate.
              and_then (last_item dates) (\<lambda>enddate.
              and_then (get_column hist ''streamflow (m^3/s)'') (\<lambda>flow_col.
              and_then (py_max flow_col) (\<lambda>y_max.
              and_then (get_column rperiods ''return_period_2'') (\<lambda>r2.
              and_then (get_column rperiods ''return_period_10'') (\<lambda>r10.
              and_then (get_column rperiods ''return_period_20'') (\<lambda>r20.
              let plot_data =
                    [(''reach_id'', PV reach_id),
                     (''drain_area'', PV drain_area),
                     (''x_datetime'', PIdx dates),
                     (''y_flow'', PCells flow_col),
                     (''y_max'', PCell y_max),
                     (''r2'', PCells r2),
                     (''r10'', PCells r10),
                     (''r20'', PCells r20)]
              in
              if outformat = PyStr ''json'' then Inr (Json plot_data)
              else
                let lay = \<lparr>title = build_title ''Historic Streamflow Simulation''
                                     reach_id drain_area,
                           xaxis = [(''title'', ''Date''), (''hoverformat'', ''%b %d %Y''),
                                    (''tickformat'', ''%Y'')],
                           yaxis_title = streamflow_axis,
                           yaxis_range = [Some 0, times_cell 1.2 y_max],
                           shapes = rperiod_shapes startdate enddate
                                      (Column r2) (Column r10) (Column r20) y_max\<rparr>;
                    fig = \<lparr>fig_data =
                             [\<lparr>trace_name = None, trace_x = dates, trace_y = flow_col,
                               trace_style = []\<rparr>],
                           fig_layout = lay\<rparr>
                in Inr (emit outformat fig)))))))))"

text \<open>
  \<^verbatim>\<open>seasonal_plot(seasonal, **kwargs)\<close>. The maximum of the
  \<^verbatim>\<open>max_flow\<close> column is taken only when the layout is built, after the
  \<^verbatim>\<open>'json'\<close> return. The layout is given no shapes.
\<close>

definition seasonal_plot ::
  "('i, cell) pyobj \<Rightarrow> (string \<times> pyval) list \<Rightarrow>
   pyerror + ((string \<times> 'i pdval) list, ('i, 't) figure) plot_result" where
  "seasonal_plot seasonal_arg kwargs =
    (let reach_id = kwargs_get kwargs ''reach_id'' PyNone;
         drain_area = kwargs_get kwargs ''drain_area'' PyNone;
         outformat = kwargs_get kwargs ''outformat'' (PyStr ''plotly'')
     in case seasonal_arg of
          NotDataFrame \<Rightarrow> Inl not_a_dataframe
        | DataFrame seasonal \<Rightarrow>
            if outformat \<notin> set outformats then Inl invalid_outformat_plotly
            else
              and_then (get_column seasonal ''streamflow (m^3/s)'') (\<lambda>average_flow.
              and_then (get_column seasonal ''max_flow'') (\<lambda>max_flow.
              and_then (get_column seasonal ''min_flow'') (\<lambda>min_flow.
              let day_number = df_index seasonal;
                  plot_data =
                    [(''reach_id'', PV reach_id),
                     (''drain_area'', PV drain_area),
                     (''day_number'', PIdx day_number),
                     (''average_flow'', PCells average_flow),
                     (''max_flow'', PCells max_flow),
                     (''min_flow'', PCells min_flow)]
              in
              if outformat = PyStr ''json'' then Inr (Json plot_data)
              else
                and_then (py_max max_flow) (\<lambda>y_max.
                let avg_trace = scatter ''Average Daily Flow'' day_number average_flow
                                  [(''line.color'', ''blue'')];
                    max_trace = scatter ''Maximum Daily Flow'' day_number max_flow
                                  [(''line.color'', ''red'')];
                    min_trace = scatter ''Minimum Daily Flow'' day_number min_flow
                                  [(''line.color'', ''black'')];
                    lay = \<lparr>title = build_title ''Daily Average Streamflow (Historic Simulation)''
                                     reach_id drain_area,
                           xaxis = [(''title'', ''Date''), (''hoverformat'', ''%b %d (%j)''),
                                    (''tickformat'', ''%b'')],
                           yaxis_title = streamflow_axis,
                           yaxis_range = [Some 0, times_cell 1.2 y_max],
                           shapes = []\<rparr>;
                    fig = \<lparr>fig_data = [max_trace, avg_trace, min_trace], fig_layout = lay\<rparr>
                in Inr (emit outformat fig))))))"

text \<open>
  The pieces of \<^verbatim>\<open>flow_duration_curve_plot\<close>.
  \<^verbatim>\<open>hist.sort_values(by=..., ascending=False)[...]\<close> gives the flows in descending
  order, missing values last.
\<close>

definition numbers :: "cell list \<Rightarrow> real list" where
  "numbers col = List.map_filter (\<lambda>v. v) col"

definition sort_values_descending :: "cell list \<Rightarrow> cell list" where
  "sort_values_descending col =
     map Some (rev (sort (numbers col))) @ filter (\<lambda>v. v = None) col"

text \<open>
  \<^verbatim>\<open>scipy.stats.rankdata(a, method='average')\<close>: the ranks \<open>1..n\<close> of the
  values in ascending order, tied values sharing the mean of the ranks they span: a
  value with \<open>l\<close> smaller values and \<open>e\<close> equal ones (itself included) has rank
  \<open>l + (e + 1) / 2\<close>. With a missing value among the data every rank is missing
  (scipy's \<^verbatim>\<open>nan_policy='propagate'\<close>).
\<close>

definition rankdata_average :: "cell list \<Rightarrow> cell list" where
  "rankdata_average a =
     (if None \<in> set a then map (\<lambda>_. None) a
      else map (\<lambda>x. Some (real (length (filter (\<lambda>y. y < x) (numbers a)))
                         + (real (length (filter (\<lambda>y. y = x) (numbers a))) + 1) / 2))
               (numbers a))"

text \<open>
  \<^verbatim>\<open>
  sorted_hist = hist.sort_values(by='streamflow (m^3/s)', ascending=False)['streamflow (m^3/s)'].tolist()
  ranks = len(hist) - scipy.stats.rankdata(sorted_hist, method='average')
  prob = [(ranks[i] / (len(sorted_hist) + 1)) for i in range(len(sorted_hist))]
  \<close>
\<close>

definition flow_duration_curve_plot ::
  "('i, cell) pyobj \<Rightarrow> (string \<times> pyval) list \<Rightarrow>
   pyerror + ((string \<times> 'i pdval) list, (cell, 't) figure) plot_result" where
  "flow_duration_curve_plot hist_arg kwargs =
    (let reach_id = kwargs_get kwargs ''reach_id'' PyNone;
         drain_area = kwargs_get kwargs ''drain_area'' PyNone;
         outformat = kwargs_get kwargs ''outformat'' (PyStr ''plotly'')
     in case hist_arg of
          NotDataFrame \<Rightarrow> Inl not_a_dataframe
        | DataFrame hist \<Rightarrow>
            if outformat \<notin> set outformats then Inl invalid_outformat_plotly
            else
              and_then (get_column hist ''streamflow (m^3/s)'') (\<lambda>flow_col.
              let sorted_hist = sort_values_descending flow_col;
                  ranks = map (map_option (\<lambda>r. real (length (df_index hist)) - r))
                              (rankdata_average sorted_hist);
                  prob = map (map_option (\<lambda>r. r / (real (length sorted_hist) + 1))) ranks
              in
              and_then (first_item sorted_hist) (\<lambda>y_max.
              let plot_data =
                    [(''reach_id'', PV reach_id),
                     (''drain_area'', PV drain_area),
                     (''x_probability'', PCells prob),
                     (''y_flow'', PCells sorted_hist),
                     (''y_max'', PCell y_max)]
              in
              if outformat = PyStr ''json'' then Inr (Json plot_data)
              else
                let lay = \<lparr>title = build_title ''Flow Duration Curve'' reach_id drain_area,
                           xaxis = [(''title'', ''Date''), (''hoverformat'', ''%b %d %Y''),
                                    (''tickformat'', ''%Y'')],
                           yaxis_title = streamflow_axis,
                           yaxis_range = [Some 0, times_cell 1.2 y_max],
                           shapes = []\<rparr>;
                    fig = \<lparr>fig_data =
                             [\<lparr>trace_name = None, trace_x = prob, trace_y = sorted_hist,
                               trace_style = []\<rparr>],
                           fig_layout = lay\<rparr>
                in Inr (emit outformat fig))))"

section \<open>Dates and times\<close>

text \<open>
  A point in time (\<^verbatim>\<open>datetime.datetime\<close>, pandas' \<^verbatim>\<open>Timestamp\<close>) is the
  number of seconds since the start of day 0 of the proleptic Gregorian calendar, day 1
  being 0001-01-01 as for \<^verbatim>\<open>date.toordinal\<close>. The conversions follow CPython's
  \<^verbatim>\<open>datetime\<close> module.
\<close>

type_synonym timestamp = int

definition is_leap :: "int \<Rightarrow> bool" where
  "is_leap y = (y mod 4 = 0 \<and> (y mod 100 \<noteq> 0 \<or> y mod 400 = 0))"

definition days_before_year :: "int \<Rightarrow> int" where
  "days_before_year y = (y - 1) * 365 + (y - 1) div 4 - (y - 1) div 100 + (y - 1) div 400"

definition days_in_month :: "int \<Rightarrow> int \<Rightarrow> int" where
  "days_in_month y m =
     (if m = 2 \<and> is_leap y then 29
      else [31, 28, 31, 30, 31, 30, 31, 31, 30, 31, 30, 31] ! nat (m - 1))"

definition days_before_month :: "int \<Rightarrow> int \<Rightarrow> int" where
  "days_before_month y m =
     [0, 31, 59, 90, 120, 151, 181, 212, 243, 273, 304, 334] ! nat (m - 1)
     + (if m > 2 \<and> is_leap y then 1 else 0)"

definition ymd2ord :: "int \<Rightarrow> int \<Rightarrow> int \<Rightarrow> int" where
  "ymd2ord y m d = days_before_year y + days_before_month y m + d"

definition ord2ymd :: "int \<Rightarrow> int \<times> int \<times> int" where
  "ord2ymd ordinal =
     (let n = ordinal - 1;
          n400 = n div 146097; n = n mod 146097;
          n100 = n div 36524; n = n mod 36524;
          n4 = n div 1461; n = n mod 1461;
          n1 = n div 365; n = n mod 365;
          y = n400 * 400 + 1 + n100 * 100 + n4 * 4 + n1
      in if n1 = 4 \<or> n100 = 4 then (y - 1, 12, 31)
         else
           let leapyear = (n1 = 3 \<and> (n4 \<noteq> 24 \<or> n100 = 3));
               m = (n + 50) div 32;
               preceding = days_before_month 1 m + (if m > 2 \<and> leapyear then 1 else 0)
           in if preceding > n
              then let m' = m - 1;
                       preceding' = preceding
                         - (days_in_month 1 m' + (if m' = 2 \<and> leapyear then 1 else 0))
                   in (y, m', n - preceding' + 1)
              else (y, m, n - preceding + 1))"

definition make_datetime :: "int \<Rightarrow> int \<Rightarrow> int \<Rightarrow> int \<Rightarrow> timestamp" where
  "make_datetime y m d h = ymd2ord y m d * 86400 + h * 3600"

text \<open>\<^verbatim>\<open>t + datetime.timedelta(days=i)\<close> and \<^verbatim>\<open>(t1 - t0).days\<close>\<close>

definition add_days :: "timestamp \<Rightarrow> int \<Rightarrow> timestamp" where
  "add_days t i = t + i * 86400"

definition span_days :: "timestamp \<Rightarrow> timestamp \<Rightarrow> int" where
  "span_days t1 t0 = (t1 - t0) div 86400"

definition two_digits :: "int \<Rightarrow> string" where
  "two_digits n = (if n < 10 then CHR ''0'' # str_nat (nat n) else str_nat (nat n))"

definition month_abbr :: "int \<Rightarrow> string" where
  "month_abbr m =
     [''Jan'', ''Feb'', ''Mar'', ''Apr'', ''May'', ''Jun'',
      ''Jul'', ''Aug'', ''Sep'', ''Oct'', ''Nov'', ''Dec''] ! nat (m - 1)"

text \<open>\<^verbatim>\<open>t.strftime('%b %d')\<close>\<close>

definition strftime_b_d :: "timestamp \<Rightarrow> string" where
  "strftime_b_d t =
     (case ord2ymd (t div 86400) of (y, m, d) \<Rightarrow> month_abbr m @ '' '' @ two_digits d)"

text \<open>
  \<^verbatim>\<open>datetime.datetime.strptime(s, "%Y-%m-%d %H:00:00")\<close> on ASCII text: four digits
  for the year; one or two digits for the month, the day (or a space and a digit) and
  the hour, each within its range; any run of whitespace for the blank of the format;
  the literal \<^verbatim>\<open>:00:00\<close>; nothing after it. A date that does not exist is refused.
\<close>

definition strptime_error :: "string \<Rightarrow> pyerror" where
  "strptime_error s =
     ValueError (''time data '' @ s @ '' does not match format %Y-%m-%d %H:00:00'')"

definition strptime :: "string \<Rightarrow> pyerror + timestamp" where
  "strptime s =
     (let ys = takeWhile is_digit s; s1 = dropWhile is_digit s in
      if length ys \<noteq> 4 \<or> s1 = [] \<or> hd s1 \<noteq> CHR ''-'' then Inl (strptime_error s)
      else
      let ms = takeWhile is_digit (tl s1); s2 = dropWhile is_digit (tl s1) in
      if ms = [] \<or> length ms > 2 \<or> digits_value ms < 1 \<or> digits_value ms > 12
         \<or> s2 = [] \<or> hd s2 \<noteq> CHR ''-''
      then Inl (strptime_error s)
      else
      let s3 = (if tl s2 \<noteq> [] \<and> hd (tl s2) = CHR '' '' then tl (tl s2) else tl s2);
          padded = (tl s2 \<noteq> [] \<and> hd (tl s2) = CHR '' '');
          ds = takeWhile is_digit s3; s4 = dropWhile is_digit s3 in
      if ds = [] \<or> length ds > (if padded then 1 else 2)
         \<or> digits_value ds < 1 \<or> digits_value ds > 31
         \<or> s4 = [] \<or> \<not> is_space (hd s4)
      then Inl (strptime_error s)
      else
      let s5 = dropWhile is_space s4;
          hs = takeWhile is_digit s5; s6 = dropWhile is_digit s5 in
      if hs = [] \<or> length hs > 2 \<or> digits_value hs > 23 \<or> s6 \<noteq> '':00:00''
      then Inl (strptime_error s)
      else
      let y = digits_value ys; m = digits_value ms; d = digits_value ds in
      if y < 1 then Inl (ValueError ''year 0 is out of range'')
      else if d > days_in_month y m then Inl (ValueError ''day is out of range for month'')
      else Inr (make_datetime y m d (digits_value hs)))"

section \<open>Exceedance table\<close>

text \<open>
  \<^verbatim>\<open>df.iloc[k][0]\<close>: the value in the first column of the row at position \<open>k\<close>.
\<close>

definition iloc_first :: "('i, 'c) dataframe \<Rightarrow> nat \<Rightarrow> pyerror + 'c" where
  "iloc_first df k =
     (if k < length (df_index df)
      then (case df_columns df of
              [] \<Rightarrow> Inl (IndexError ''index out of bounds'')
            | (name, col) # _ \<Rightarrow>
                if k < length col then Inr (col ! k) else Inl (IndexError ''index out of bounds''))
      else Inl (IndexError ''single positional indexer is out-of-bounds''))"

text \<open>The rows of a frame whose label satisfies \<open>P\<close>, the rows at the positions from
  \<open>i\<close> up to but not including \<open>j\<close>, and the position of the first occurrence of a
  label.\<close>

definition rows_where :: "('i \<Rightarrow> bool) \<Rightarrow> ('i, 'c) dataframe \<Rightarrow> ('i, 'c) dataframe" where
  "rows_where P df =
     \<lparr>df_index = filter P (df_index df),
      df_columns =
        map (\<lambda>(name, col). (name, map snd (filter (\<lambda>(t, v). P t) (zip (df_index df) col))))
            (df_columns df)\<rparr>"

definition rows_between :: "nat \<Rightarrow> nat \<Rightarrow> ('i, 'c) dataframe \<Rightarrow> ('i, 'c) dataframe" where
  "rows_between i j df =
     \<lparr>df_index = take (j - i) (drop i (df_index df)),
      df_columns = map (\<lambda>(name, col). (name, take (j - i) (drop i col))) (df_columns df)\<rparr>"

definition position :: "'a \<Rightarrow> 'a list \<Rightarrow> nat" where
  "position a xs = length (takeWhile (\<lambda>x. x \<noteq> a) xs)"

text \<open>
  The label slice \<^verbatim>\<open>df.loc[a:b]\<close>, both ends included. On an ascending index
  it keeps the rows labelled within \<open>[a, b]\<close>, on a descending one those within
  \<open>[b, a]\<close>. On an index in no order pandas looks both labels up: when each occurs
  once the rows from the one to the other are kept; otherwise the lookup fails, which
  the model reports as \<^verbatim>\<open>KeyError\<close> (also for a repeated label).
\<close>

definition loc_slice ::
  "('i::linorder, 'c) dataframe \<Rightarrow> 'i \<Rightarrow> 'i \<Rightarrow> pyerror + ('i, 'c) dataframe" where
  "loc_slice df a b =
     (let idx = df_index df in
      if sorted idx then Inr (rows_where (\<lambda>t. a \<le> t \<and> t \<le> b) df)
      else if sorted (rev idx) then Inr (rows_where (\<lambda>t. b \<le> t \<and> t \<le> a) df)
      else if count_list idx a = 1 \<and> count_list idx b = 1
      then Inr (rows_between (position a idx) (Suc (position b idx)) df)
      else Inl (KeyError ''slice bound''))"

text \<open>Python's \<^verbatim>\<open>round(x)\<close> of a float: to the nearest integer, a tie to the
  even one.\<close>

definition py_round :: "real \<Rightarrow> int" where
  "py_round x =
     (let f = \<lfloor>x\<rfloor>; r = x - of_int f
      in if r < 1 / 2 then f
         else if r > 1 / 2 then f + 1
         else if even f then f else f + 1)"

text \<open>
  The inner loop of \<^verbatim>\<open>probabilities_table\<close> over the columns of one day's
  sub-window, from the tallies so far to the tallies after it; \<open>exceeds flows rp\<close> is
  \<^verbatim>\<open>any(i > rp for i in flows)\<close>:
  \<^verbatim>\<open>
  for column in tmp:
      if any(i > rp20 for i in tmp[column].to_numpy()):
          num2 += 1; num10 += 1; num20 += 1
      elif any(i > rp10 for i in tmp[column].to_numpy()):
          num10 += 1; num2 += 1
      elif any(i > rp2 for i in tmp[column].to_numpy()):
          num2 += 1
  \<close>
\<close>

definition exceeds :: "cell list \<Rightarrow> cell \<Rightarrow> bool" where
  "exceeds flows rp = list_ex (\<lambda>v. cell_gt v rp) flows"

fun tally ::
  "(string \<times> cell list) list \<Rightarrow> cell \<Rightarrow> cell \<Rightarrow> cell \<Rightarrow> nat \<times> nat \<times> nat \<Rightarrow> nat \<times> nat \<times> nat" where
  "tally [] rp2 rp10 rp20 (num2, num10, num20) = (num2, num10, num20)"
| "tally ((column, flows) # rest) rp2 rp10 rp20 (num2, num10, num20) =
     (if exceeds flows rp20
      then tally rest rp2 rp10 rp20 (num2 + 1, num10 + 1, num20 + 1)
      else if exceeds flows rp10
      then tally rest rp2 rp10 rp20 (num2 + 1, num10 + 1, num20)
      else if exceeds flows rp2
      then tally rest rp2 rp10 rp20 (num2 + 1, num10, num20)
      else tally rest rp2 rp10 rp20 (num2, num10, num20))"

record day_row =
  day_label :: string
  count2 :: nat
  count10 :: nat
  count20 :: nat
  percent2 :: int
  percent10 :: int
  percent20 :: int

text \<open>
  The outer loop over the days: the window of day \<open>i\<close> is
  \<^verbatim>\<open>ensembles.loc[uniqueday[i]:uniqueday[i + 1]]\<close>, and the last entry of
  \<^verbatim>\<open>uniqueday\<close> only closes the last window. Each row keeps the tallies of its
  day beside the label and the three percentages that the source appends to
  \<^verbatim>\<open>days\<close>, \<^verbatim>\<open>r2\<close>, \<^verbatim>\<open>r10\<close> and \<^verbatim>\<open>r20\<close>.
\<close>

fun days_loop ::
  "timestamp list \<Rightarrow> (timestamp, cell) dataframe \<Rightarrow> cell \<Rightarrow> cell \<Rightarrow> cell \<Rightarrow>
   pyerror + day_row list" where
  "days_loop (d0 # d1 # rest) ensembles rp2 rp10 rp20 =
     (case loc_slice ensembles d0 d1 of
        Inl e \<Rightarrow> Inl e
      | Inr tmp \<Rightarrow>
          (case tally (df_columns tmp) rp2 rp10 rp20 (0, 0, 0) of
             (num2, num10, num20) \<Rightarrow>
               (case days_loop (d1 # rest) ensembles rp2 rp10 rp20 of
                  Inl e \<Rightarrow> Inl e
                | Inr rows \<Rightarrow>
                    Inr (\<lparr>day_label = strftime_b_d d0,
                          count2 = num2, count10 = num10, count20 = num20,
                          percent2 = py_round (real num2 * 100 / 52),
                          percent10 = py_round (real num10 * 100 / 52),
                          percent20 = py_round (real num20 * 100 / 52)\<rparr> # rows))))"
| "days_loop uniqueday ensembles rp2 rp10 rp20 = Inr []"

text \<open>The context handed to the template: the lists \<^verbatim>\<open>days\<close>, \<^verbatim>\<open>r2\<close>,
  \<^verbatim>\<open>r10\<close>, \<^verbatim>\<open>r20\<close>.\<close>

record table_context =
  ctx_days :: "string list"
  ctx_r2 :: "int list"
  ctx_r10 :: "int list"
  ctx_r20 :: "int list"

text \<open>The three thresholds as \<^verbatim>\<open>probabilities_table\<close> reads them, in the order
  of the source: \<^verbatim>\<open>rp2 = rperiods.iloc[3][0]\<close>, \<^verbatim>\<open>rp10 = rperiods.iloc[2][0]\<close>,
  \<^verbatim>\<open>rp20 = rperiods.iloc[1][0]\<close>.\<close>

definition read_thresholds :: "('r, cell) dataframe \<Rightarrow> pyerror + (cell \<times> cell \<times> cell)" where
  "read_thresholds rperiods =
     and_then (iloc_first rperiods 3) (\<lambda>rp2.
     and_then (iloc_first rperiods 2) (\<lambda>rp10.
     and_then (iloc_first rperiods 1) (\<lambda>rp20. Inr (rp2, rp10, rp20))))"

text \<open>
  The rows of \<^verbatim>\<open>probabilities_table(stats, ensembles, rperiods)\<close>, one per day.
\<close>

definition probability_rows ::
  "('s, string) dataframe \<Rightarrow> (timestamp, cell) dataframe \<Rightarrow> ('r, cell) dataframe \<Rightarrow>
   pyerror + day_row list" where
  "probability_rows stats ensembles rperiods =
     and_then (get_column stats ''datetime'') (\<lambda>dates.
     and_then (first_item dates) (\<lambda>startdate.
     and_then (last_item dates) (\<lambda>enddate.
     and_then (strptime startdate) (\<lambda>start_datetime.
     and_then (strptime enddate) (\<lambda>end_datetime.
     let span = span_days end_datetime start_datetime;
         uniqueday = map (\<lambda>i. add_days start_datetime (int i)) [0..<nat (span + 2)]
     in
     and_then (read_thresholds rperiods) (\<lambda>(rp2, rp10, rp20).
     days_loop uniqueday ensembles rp2 rp10 rp20))))))"

text \<open>
  \<^verbatim>\<open>probabilities_table\<close> renders a template of the package with the four
  lists; the model returns the lists.
\<close>

definition probabilities_table ::
  "('s, string) dataframe \<Rightarrow> (timestamp, cell) dataframe \<Rightarrow> ('r, cell) dataframe \<Rightarrow>
   pyerror + table_context" where
  "probabilities_table stats ensembles rperiods =
     and_then (probability_rows stats ensembles rperiods) (\<lambda>rows.
       Inr \<lparr>ctx_days = map day_label rows,
            ctx_r2 = map percent2 rows,
            ctx_r10 = map percent10 rows,
            ctx_r20 = map percent20 rows\<rparr>)"

section \<open>Requests and response parsing\<close>

text \<open>The body of an HTTP response (\<^verbatim>\<open>data.text\<close>).\<close>

datatype http_response = Response string

fun response_text :: "http_response \<Rightarrow> string" where
  "response_text (Response body) = body"

text \<open>\<^verbatim>\<open>s.split(sep)\<close>\<close>

fun split_on :: "char \<Rightarrow> string \<Rightarrow> string list" where
  "split_on sep [] = [[]]"
| "split_on sep (c # cs) =
     (if c = sep then [] # split_on sep cs
      else (case split_on sep cs of [] \<Rightarrow> [[c]] | w # ws \<Rightarrow> (c # w) # ws))"

text \<open>
  \<^verbatim>\<open>pandas.read_csv(StringIO(text), index_col=name)\<close> for the payloads of the
  service: lines of comma-separated fields without quoting, the first line naming the
  columns, blank lines skipped. The named column becomes the index, the others keep
  their order; a short row is filled with empty fields, a row longer than the header is
  refused. Fields are kept as text: which numbers pandas reads from them plays no role
  below.
\<close>

definition csv_lines :: "string \<Rightarrow> string list list" where
  "csv_lines body = map (split_on (CHR '','')) (filter (\<lambda>l. l \<noteq> []) (split_on (CHR 0x0A) body))"

definition field :: "string list \<Rightarrow> nat \<Rightarrow> string" where
  "field row j = (if j < length row then row ! j else [])"

definition read_csv :: "string \<Rightarrow> string \<Rightarrow> pyerror + (string, string) dataframe" where
  "read_csv body index_col =
     (case csv_lines body of
        [] \<Rightarrow> Inl (ValueError ''No columns to parse from file'')
      | header # rows \<Rightarrow>
          if index_col \<notin> set header then Inl (ValueError (''Index '' @ index_col @ '' invalid''))
          else if list_ex (\<lambda>row. length row > length header) rows
          then Inl (ValueError ''Error tokenizing data'')
          else
            let k = position index_col header in
            Inr \<lparr>df_index = map (\<lambda>row. field row k) rows,
                 df_columns =
                   map (\<lambda>j. (header ! j, map (\<lambda>row. field row j) rows))
                       (filter (\<lambda>j. j \<noteq> k) [0..<length header])\<rparr>)"

text \<open>Applying a fallible conversion to every entry; the first failure is raised.\<close>

fun traverse :: "('a \<Rightarrow> 'e + 'b) \<Rightarrow> 'a list \<Rightarrow> 'e + 'b list" where
  "traverse f [] = Inr []"
| "traverse f (x # xs) =
     (case f x of
        Inl e \<Rightarrow> Inl e
      | Inr y \<Rightarrow> (case traverse f xs of Inl e \<Rightarrow> Inl e | Inr ys \<Rightarrow> Inr (y # ys)))"

text \<open>
  \<^verbatim>\<open>pandas.to_datetime(n, format='%j').strftime('%b %d')\<close> for one integer \<open>n\<close>:
  \<^verbatim>\<open>%j\<close> accepts the day numbers 1 to 366 and counts them from the first of January
  of the year 1900, the default year, which has 365 days.
\<close>

definition julian_label :: "int \<Rightarrow> pyerror + string" where
  "julian_label n =
     (if 1 \<le> n \<and> n \<le> 366
      then Inr (strftime_b_d ((ymd2ord 1900 1 1 + (n - 1)) * 86400))
      else Inl (ValueError (''time data '' @ py_str (PyInt n) @ '' does not match format %j'')))"

text \<open>
  The index of the seasonal-average table:
  \<^verbatim>\<open>pandas.to_datetime(tmp.index + 1, format='%j').strftime('%b %d')\<close>. The index
  read from the payload has to be integers for the addition.
\<close>

definition seasonal_label :: "int \<Rightarrow> pyerror + string" where
  "seasonal_label day_of_year = julian_label (day_of_year + 1)"

definition seasonal_index :: "string list \<Rightarrow> pyerror + string list" where
  "seasonal_index entries =
     (case traverse py_int entries of
        Inl e \<Rightarrow> Inl (TypeError ''unsupported operand for +: day_of_year index and int'')
      | Inr day_numbers \<Rightarrow> traverse seasonal_label day_numbers)"

text \<open>What \<^verbatim>\<open>_make_request\<close> returns, by return format.\<close>

datatype ('t, 'j) reply =
    Frame "(string, string) dataframe"
  | TimeFrame "('t, string) dataframe"
  | JsonData 'j
  | WaterML string
  | RawResponse http_response

text \<open>
  The second half of \<^verbatim>\<open>_make_request\<close>: turning the response into the Python
  object. \<^verbatim>\<open>pandas.to_datetime\<close> (on one index entry) and \<^verbatim>\<open>json.loads\<close>
  are parameters.
\<close>

definition process_response ::
  "(string \<Rightarrow> pyerror + 'j) \<Rightarrow> (string \<Rightarrow> pyerror + 't) \<Rightarrow> string \<Rightarrow> string \<Rightarrow>
   http_response \<Rightarrow> pyerror + ('t, 'j) reply" where
  "process_response json_loads to_datetime method return_format data =
     (if return_format = ''csv'' then
        if method = ''ForecastWarnings/'' then
          and_then (read_csv (response_text data) ''comid'') (\<lambda>tmp. Inr (Frame tmp))
        else if method = ''ReturnPeriods/'' then
          and_then (read_csv (response_text data) ''rivid'') (\<lambda>tmp. Inr (Frame tmp))
        else if method = ''SeasonalAverage/'' then
          and_then (read_csv (response_text data) ''day_of_year'') (\<lambda>tmp.
          and_then (seasonal_index (df_index tmp)) (\<lambda>labels.
          Inr (Frame (tmp\<lparr>df_index := labels\<rparr>))))
        else
          and_then (read_csv (response_text data) ''datetime'') (\<lambda>tmp.
          and_then (traverse to_datetime (df_index tmp)) (\<lambda>stamps.
          Inr (TimeFrame \<lparr>df_index = stamps, df_columns = df_columns tmp\<rparr>)))
      else if return_format = ''json'' then
        and_then (json_loads (response_text data)) (\<lambda>j. Inr (JsonData j))
      else if return_format = ''waterml'' then Inr (WaterML (response_text data))
      else if return_format = ''request'' then Inr (RawResponse data)
      else Inl (ValueError (''Unsupported return format requested: '' @ return_format)))"

text \<open>
  \<^verbatim>\<open>_make_request(endpoint, method, params, return_format)\<close>. The network is the
  parameter \<open>server\<close>: what \<^verbatim>\<open>requests.get(url, params=params)\<close> answers or
  raises. The result comes with the list of the HTTP requests that were issued.
  \<^verbatim>\<open>
  if return_format == 'request':
      params['return_format'] == 'csv'
  data = requests.get(endpoint + method, params=params)
  \<close>
  The first statement is a comparison, not an assignment; it only fails when the key is
  missing.
\<close>

type_synonym http_request = "string \<times> (string \<times> pyval) list"

definition make_request ::
  "(string \<Rightarrow> (string \<times> pyval) list \<Rightarrow> pyerror + http_response) \<Rightarrow>
   (string \<Rightarrow> pyerror + 'j) \<Rightarrow> (string \<Rightarrow> pyerror + 't) \<Rightarrow>
   string \<Rightarrow> string \<Rightarrow> (string \<times> pyval) list \<Rightarrow> string \<Rightarrow>
   (pyerror + ('t, 'j) reply) \<times> http_request list" where
  "make_request server json_loads to_datetime endpoint method params return_format =
     (if return_format = ''request'' \<and> map_of params ''return_format'' = None
      then (Inl (KeyError ''return_format''), [])
      else
        (case server (endpoint @ method) params of
           Inl e \<Rightarrow> (Inl e, [(endpoint @ method, params)])
         | Inr data \<Rightarrow>
             (process_response json_loads to_datetime method return_format data,
              [(endpoint @ method, params)])))"

section \<open>Reading a figure off a result\<close>

definition figure_of :: "('d, 'f) plot_result \<Rightarrow> 'f option" where
  "figure_of res =
     (case res of Plotly fig \<Rightarrow> Some fig | PlotlyHtml fig \<Rightarrow> Some fig | _ \<Rightarrow> None)"

definition result_figure :: "pyerror + ('d, 'f) plot_result \<Rightarrow> 'f option" where
  "result_figure r = (case r of Inl e \<Rightarrow> None | Inr res \<Rightarrow> figure_of res)"

text \<open>The y-axis range of the chart a call produced, if it produced one.\<close>

definition result_yrange :: "pyerror + ('d, ('x, 't) figure) plot_result \<Rightarrow> cell list option" where
  "result_yrange r = map_option (\<lambda>fig. yaxis_range (fig_layout fig)) (result_figure r)"

text \<open>
  The specification's reading of the y axis: the largest value among all the series
  that the chart plots.
\<close>

definition plotted_values :: "('x, 't) figure \<Rightarrow> real list" where
  "plotted_values fig = concat (map (\<lambda>t. numbers (trace_y t)) (fig_data fig))"

definition plotted_maximum :: "('x, 't) figure \<Rightarrow> real" where
  "plotted_maximum fig = Max (set (plotted_values fig))"

section \<open>Sample tables\<close>

text \<open>
  A forecast of two time steps with the recorded flows of the two days before it. The
  recorded flows (100 and 90) lie far above the forecast maximum (15).
\<close>

definition sample_records :: "(timestamp, cell) dataframe" where
  "sample_records =
     \<lparr>df_index = [make_datetime 2020 5 10 0, make_datetime 2020 5 11 0],
      df_columns = [(''streamflow (m^3/s)'', [Some 100, Some 90])]\<rparr>"

definition sample_stats :: "(timestamp, cell) dataframe" where
  "sample_stats =
     \<lparr>df_index = [make_datetime 2020 5 12 0, make_datetime 2020 5 12 3],
      df_columns =
        [(''mean (m^3/s)'', [Some 10, Some 10]),
         (''max (m^3/s)'', [Some 15, Some 14]),
         (''min (m^3/s)'', [Some 5, Some 6]),
         (''std_dev_range_lower (m^3/s)'', [Some 8, Some 8]),
         (''std_dev_range_upper (m^3/s)'', [Some 12, Some 12]),
         (''high_res (m^3/s)'', [Some 11, None])]\<rparr>"

definition sample_rperiods :: "(int, cell) dataframe" where
  "sample_rperiods =
     \<lparr>df_index = [123],
      df_columns =
        [(''return_period_20'', [Some 30]),
         (''return_period_10'', [Some 20]),
         (''return_period_2'', [Some 12])]\<rparr>"

definition sample_hist :: "(timestamp, cell) dataframe" where
  "sample_hist =
     \<lparr>df_index = [make_datetime 2019 1 1 0, make_datetime 2019 1 2 0, make_datetime 2019 1 3 0],
      df_columns = [(''streamflow (m^3/s)'', [Some 7, Some 9, Some 7])]\<rparr>"

definition sample_seasonal :: "(string, cell) dataframe" where
  "sample_seasonal =
     \<lparr>df_index = [''Jan 01'', ''Jan 02''],
      df_columns =
        [(''streamflow (m^3/s)'', [Some 4, Some 5]),
         (''max_flow'', [Some 8, Some 10]),
         (''min_flow'', [Some 1, Some 2])]\<rparr>"

text \<open>An ensemble table with the 52 members, member \<open>k\<close> flowing at \<open>k\<close> and then at 1.\<close>

definition sample_ensembles :: "(timestamp, cell) dataframe" where
  "sample_ensembles =
     \<lparr>df_index = [make_datetime 2020 5 12 0, make_datetime 2020 5 12 3],
      df_columns =
        map (\<lambda>k. (''ensemble_'' @ two_digits (int k) @ '' (m^3/s)'', [Some (real k), Some 1]))
            [1..<53]\<rparr>"

definition xml_kwargs :: "(string \<times> pyval) list" where
  "xml_kwargs = [(''outformat'', PyStr ''xml'')]"

section \<open>Sample requests\<close>

definition BYU_ENDPOINT :: string where
  "BYU_ENDPOINT = ''https://tethys2.byu.edu/localsptapi/api/''"

text \<open>
  A \<^verbatim>\<open>json.loads\<close> that finds nothing to decode. In the samples
  \<^verbatim>\<open>strptime\<close> stands for \<^verbatim>\<open>pandas.to_datetime\<close>: on text of the form
  \<^verbatim>\<open>YYYY-MM-DD HH:00:00\<close> both read the same instant.
\<close>

definition no_json :: "string \<Rightarrow> pyerror + unit" where
  "no_json body = Inl (ValueError ''Expecting value'')"

definition quiet_server :: "string \<Rightarrow> (string \<times> pyval) list \<Rightarrow> pyerror + http_response" where
  "quiet_server url params = Inr (Response [])"

text \<open>Two days of a historical simulation, the later day first, and the same two days
  in the order of time.\<close>

definition descending_payload :: string where
  "descending_payload =
     ''datetime,streamflow (m^3/s)\<newline>2020-05-13 00:00:00,2.5\<newline>2020-05-12 00:00:00,1.5\<newline>''"

definition descending_server :: "string \<Rightarrow> (string \<times> pyval) list \<Rightarrow> pyerror + http_response" where
  "descending_server url params = Inr (Response descending_payload)"

definition ascending_payload :: string where
  "ascending_payload =
     ''datetime,streamflow (m^3/s)\<newline>2020-05-12 00:00:00,1.5\<newline>2020-05-13 00:00:00,2.5\<newline>''"

definition ascending_server :: "string \<Rightarrow> (string \<times> pyval) list \<Rightarrow> pyerror + http_response" where
  "ascending_server url params = Inr (Response ascending_payload)"

definition xml_params :: "(string \<times> pyval) list" where
  "xml_params = [(''reach_id'', PyInt 12341234), (''return_format'', PyStr ''xml'')]"

definition csv_params :: "(string \<times> pyval) list" where
  "csv_params = [(''reach_id'', PyInt 12341234), (''return_format'', PyStr ''csv'')]"

text \<open>Two days of a seasonal average, the day of the year counted from 0.\<close>

definition seasonal_payload :: string where
  "seasonal_payload =
     ''day_of_year,streamflow (m^3/s),max_flow,min_flow\<newline>0,4,8,1\<newline>1,5,10,2\<newline>''"

section \<open>The calendar of a year without leap day\<close>

text \<open>
  The specification's reference mapping: the month and the day of the month of the
  \<open>k\<close>-th day of a year of 365 days, found by walking through the lengths of the
  months, and its label in the form of \<^verbatim>\<open>'%b %d'\<close>.
\<close>

fun month_and_day :: "int list \<Rightarrow> int \<Rightarrow> int \<Rightarrow> int \<times> int" where
  "month_and_day [] m k = (m, k)"
| "month_and_day (len # lens) m k =
     (if k \<le> len then (m, k) else month_and_day lens (m + 1) (k - len))"

definition nonleap_label :: "int \<Rightarrow> string" where
  "nonleap_label k =
     (case month_and_day [31, 28, 31, 30, 31, 30, 31, 31, 30, 31, 30, 31] 1 k of
        (m, d) \<Rightarrow> month_abbr m @ '' '' @ two_digits d)"

section \<open>Sample forecast for the exceedance table\<close>

text \<open>
  Statistics spanning one day, and 52 ensemble members at four time steps. At the first
  step members 1 to 5 flow at 15 and members 6 and 7 at 35; every other flow is 1. The
  thresholds are 12, 20 and 30, stored below a first row that holds 40.
\<close>

definition exceedance_stats :: "(nat, string) dataframe" where
  "exceedance_stats =
     \<lparr>df_index = [0, 1, 2],
      df_columns =
        [(''datetime'',
          [''2020-05-12 00:00:00'', ''2020-05-12 12:00:00'', ''2020-05-13 00:00:00''])]\<rparr>"

definition exceedance_ensembles :: "(timestamp, cell) dataframe" where
  "exceedance_ensembles =
     \<lparr>df_index = [make_datetime 2020 5 12 0, make_datetime 2020 5 12 12,
                  make_datetime 2020 5 13 0, make_datetime 2020 5 13 12],
      df_columns =
        map (\<lambda>k. (''ensemble_'' @ two_digits (int k) @ '' (m^3/s)'',
                  [Some (if k \<le> 5 then 15 else if k \<le> 7 then 35 else 1), Some 1, Some 1, Some 1]))
            [1..<53]\<rparr>"

definition descending_rperiods :: "(string, cell) dataframe" where
  "descending_rperiods =
     \<lparr>df_index = [''max_flow'', ''return_period_20'', ''return_period_10'', ''return_period_2''],
      df_columns = [(''12341234'', [Some 40, Some 30, Some 20, Some 12])]\<rparr>"

text \<open>The same thresholds under the same labels, the rows in the opposite order.\<close>

definition ascending_rperiods :: "(string, cell) dataframe" where
  "ascending_rperiods =
     \<lparr>df_index = [''return_period_2'', ''return_period_10'', ''return_period_20'', ''max_flow''],
      df_columns = [(''12341234'', [Some 12, Some 20, Some 30, Some 40])]\<rparr>"

section \<open>Counting exceedances\<close>

text \<open>
  The specification's reading of the roll-up: a member is classified by the highest
  threshold that one of its flows in the window exceeds (3 for the 20-year, 2 for the
  10-year, 1 for the 2-year threshold, 0 for none), and the tally of a threshold counts
  the members classified at its level or above.
\<close>

definition severity :: "cell list \<Rightarrow> cell \<Rightarrow> cell \<Rightarrow> cell \<Rightarrow> nat" where
  "severity flows rp2 rp10 rp20 =
     (if exceeds flows rp20 then 3
      else if exceeds flows rp10 then 2
      else if exceeds flows rp2 then 1
      else 0)"

text \<open>The row of a day, from the columns of its window, by counting.\<close>

definition day_row_of :: "timestamp \<Rightarrow> (string \<times> cell list) list \<Rightarrow> cell \<Rightarrow> cell \<Rightarrow> cell \<Rightarrow> day_row" where
  "day_row_of d cols rp2 rp10 rp20 =
     (let n20 = length (filter (\<lambda>c. exceeds (snd c) rp20) cols);
          n10 = length (filter (\<lambda>c. exceeds (snd c) rp20 \<or> exceeds (snd c) rp10) cols);
          n2 = length (filter (\<lambda>c. exceeds (snd c) rp20 \<or> exceeds (snd c) rp10
                                  \<or> exceeds (snd c) rp2) cols)
      in \<lparr>day_label = strftime_b_d d, count2 = n2, count10 = n10, count20 = n20,
          percent2 = py_round (real n2 * 100 / 52),
          percent10 = py_round (real n10 * 100 / 52),
          percent20 = py_round (real n20 * 100 / 52)\<rparr>)"

text \<open>The table expected for the sample forecast.\<close>

definition sample_context :: table_context where
  "sample_context =
     \<lparr>ctx_days = [''May 12'', ''May 13''], ctx_r2 = [13, 0], ctx_r10 = [4, 0], ctx_r20 = [4, 0]\<rparr>"

section \<open>Ranks of the flow-duration curve\<close>

text \<open>
  The specification's rank of a flow among the observations: its place in the
  descending order, counted from 1, tied flows sharing the mean of their places; and
  the same in ascending order, which is what \<^verbatim>\<open>rankdata\<close> returns.
\<close>

definition average_rank_descending :: "real list \<Rightarrow> real \<Rightarrow> real" where
  "average_rank_descending xs x =
     real (length (filter (\<lambda>y. x < y) xs)) + (real (length (filter (\<lambda>y. y = x) xs)) + 1) / 2"

definition average_rank_ascending :: "real list \<Rightarrow> real \<Rightarrow> real" where
  "average_rank_ascending xs x =
     real (length (filter (\<lambda>y. y < x) xs)) + (real (length (filter (\<lambda>y. y = x) xs)) + 1) / 2"

text \<open>The probabilities that \<^verbatim>\<open>flow_duration_curve_plot\<close> pairs with the flows in
  descending order: the descending rank less one, over the number of flows plus one.\<close>

definition exceedance_probabilities :: "real list \<Rightarrow> real list" where
  "exceedance_probabilities xs =
     map (\<lambda>x. (average_rank_descending xs x - 1) / (real (length xs) + 1)) (rev (sort xs))"

definition single_hist :: "(timestamp, cell) dataframe" where
  "single_hist =
     \<lparr>df_index = [make_datetime 2019 1 1 0],
      df_columns = [(''streamflow (m^3/s)'', [Some 5])]\<rparr>"

definition json_kwargs :: "(string \<times> pyval) list" where
  "json_kwargs = [(''outformat'', PyStr ''json'')]"

section \<open>Verified properties\<close>

subsection \<open>Auxiliary facts\<close>

lemma and_then_Inr: "and_then m f = Inr r \<Longrightarrow> \<exists>v. m = Inr v \<and> f v = Inr r"
  by (cases m) (simp_all add: and_then_def)

lemma figure_of_emit: "figure_of (emit fmt fig) = Some g \<Longrightarrow> g = fig"
  by (auto simp: emit_def figure_of_def split: if_splits)

lemma figure_of_Json [simp]: "figure_of (Json d) = None"
  by (simp add: figure_of_def)

lemma result_figure_Some:
  "result_figure r = Some fig \<Longrightarrow> \<exists>res. r = Inr res \<and> figure_of res = Some fig"
  by (cases r) (simp_all add: result_figure_def)

lemmas sample_defs =
  sample_records_def sample_stats_def sample_rperiods_def sample_hist_def sample_seasonal_def

lemmas eval_defs =
  Let_def kwargs_get_def outformats_def first_item_def last_item_def get_column_def
  py_max_def and_then_def emit_def times_cell_def result_yrange_def result_figure_def
  figure_of_def

subsection \<open>Output-format validation\<close>

text \<open>
  Claim C4, as stated: an output format outside \<open>json\<close>, \<open>plotly\<close>,
  \<open>plotly_html\<close> makes every chart-building entry point fail with the configuration
  error, the check coming before any other validation, whatever the type of the tabular
  arguments. The code tests the type of its first table before the format: with
  \<open>outformat = 'xml'\<close> and a first argument that is not a \<^verbatim>\<open>DataFrame\<close>,
  \<^verbatim>\<open>hydroviewer_plot\<close> fails with the other error.
\<close>

theorem outformat_check_comes_second:
  "hydroviewer_plot NotDataFrame sample_stats sample_rperiods xml_kwargs = Inl not_a_dataframe
   \<and> Inl not_a_dataframe \<noteq>
       (Inl invalid_outformat_html ::
          pyerror + ((string \<times> timestamp pdval) list, (timestamp, timestamp) figure) plot_result)"
  by (simp add: hydroviewer_plot_def Let_def not_a_dataframe_def invalid_outformat_html_def)

text \<open>
  Claim C4, amended. For each of the seven chart-building entry points and every call
  whose output format is outside \<open>json\<close>, \<open>plotly\<close>, \<open>plotly_html\<close>: when the
  first table argument is a \<^verbatim>\<open>DataFrame\<close> the call fails with the invalid-format
  error, whatever the tables contain (no index or column is read before the check);
  when it is not, the call fails with the not-a-dataframe error, because that test
  comes first.
\<close>

theorem invalid_outformat_rejected:
  assumes "kwargs_get kwargs ''outformat'' (PyStr ''plotly'') \<notin> set outformats"
  shows
    "hydroviewer_plot (DataFrame records) stats rperiods kwargs = Inl invalid_outformat_html
     \<and> hydroviewer_plot NotDataFrame stats rperiods kwargs = Inl not_a_dataframe
     \<and> forecast_plot (DataFrame stats2) rperiods2 kwargs = Inl invalid_outformat_html
     \<and> forecast_plot NotDataFrame rperiods2 kwargs = Inl not_a_dataframe
     \<and> record_plot (DataFrame records3) rperiods3 kwargs = Inl invalid_outformat_html
     \<and> record_plot NotDataFrame rperiods3 kwargs = Inl not_a_dataframe
     \<and> ensembles_plot (DataFrame ensembles4) rperiods4 kwargs = Inl invalid_outformat_html
     \<and> ensembles_plot NotDataFrame rperiods4 kwargs = Inl not_a_dataframe
     \<and> historical_plot (DataFrame hist5) rperiods5 kwargs = Inl invalid_outformat_plotly
     \<and> historical_plot NotDataFrame rperiods5 kwargs = Inl not_a_dataframe
     \<and> seasonal_plot (DataFrame seasonal6) kwargs = Inl invalid_outformat_plotly
     \<and> seasonal_plot NotDataFrame kwargs = Inl not_a_dataframe
     \<and> flow_duration_curve_plot (DataFrame hist7) kwargs = Inl invalid_outformat_plotly
     \<and> flow_duration_curve_plot NotDataFrame kwargs = Inl not_a_dataframe"
  using assms
  by (simp add: hydroviewer_plot_def forecast_plot_def record_plot_def ensembles_plot_def
        historical_plot_def seasonal_plot_def flow_duration_curve_plot_def Let_def)

theorem invalid_outformat_rejected_witness:
  "kwargs_get xml_kwargs ''outformat'' (PyStr ''plotly'') \<notin> set outformats
   \<and> hydroviewer_plot (DataFrame sample_records) sample_stats sample_rperiods xml_kwargs
       = Inl invalid_outformat_html
   \<and> forecast_plot (DataFrame sample_stats) sample_rperiods xml_kwargs
       = Inl invalid_outformat_html
   \<and> record_plot (DataFrame sample_records) sample_rperiods xml_kwargs
       = Inl invalid_outformat_html
   \<and> ensembles_plot (DataFrame sample_ensembles) sample_rperiods xml_kwargs
       = Inl invalid_outformat_html
   \<and> historical_plot (DataFrame sample_hist) sample_rperiods xml_kwargs
       = Inl invalid_outformat_plotly
   \<and> (seasonal_plot (DataFrame sample_seasonal) xml_kwargs ::
         pyerror + ((string \<times> string pdval) list, (string, unit) figure) plot_result)
       = Inl invalid_outformat_plotly
   \<and> (flow_duration_curve_plot (DataFrame sample_hist) xml_kwargs ::
         pyerror + ((string \<times> timestamp pdval) list, (cell, unit) figure) plot_result)
       = Inl invalid_outformat_plotly"
proof -
  have h: "kwargs_get xml_kwargs ''outformat'' (PyStr ''plotly'') \<notin> set outformats"
    by (simp add: xml_kwargs_def kwargs_get_def outformats_def)
  from invalid_outformat_rejected [OF h,
      where records = sample_records and stats = sample_stats and rperiods = sample_rperiods
        and ?stats2.0 = sample_stats and ?rperiods2.0 = sample_rperiods
        and ?records3.0 = sample_records and ?rperiods3.0 = sample_rperiods
        and ?ensembles4.0 = sample_ensembles and ?rperiods4.0 = sample_rperiods
        and ?hist5.0 = sample_hist and ?rperiods5.0 = sample_rperiods
        and ?seasonal6.0 = sample_seasonal and ?hist7.0 = sample_hist]
  show ?thesis using h by blast
qed

subsection \<open>The y-axis range\<close>

lemma ensembles_loop_maxima:
  "ensembles_loop cols pd acc = Inr (pd', mf) \<Longrightarrow>
   map Inr mf = map Inr acc @ map (\<lambda>c. py_max (dropna (snd c))) cols"
proof (induction cols arbitrary: pd acc)
  case Nil
  then show ?case by simp
next
  case (Cons c cols)
  obtain name col where c: "c = (name, col)" by (cases c)
  from Cons.prems c obtain k m where
    m: "py_max (dropna col) = Inr m" and
    rec: "ensembles_loop cols (AList.update (KInt k) (PCells (dropna col)) pd) (acc @ [m])
            = Inr (pd', mf)"
    by (auto split: sum.splits)
  from Cons.IH[OF rec] show ?case using c m by simp
qed

lemma hydroviewer_yrange:
  assumes "hydroviewer_plot records stats rperiods kwargs = Inr res" "figure_of res = Some fig"
  shows "\<exists>col m. get_column stats ''max (m^3/s)'' = Inr col \<and> py_max col = Inr m
           \<and> yaxis_range (fig_layout fig) = [Some 0, times_cell 1.2 m]"
  using assms
  by (auto simp: hydroviewer_plot_def Let_def split: pyobj.splits if_splits
           dest!: and_then_Inr figure_of_emit)

lemma forecast_yrange:
  assumes "forecast_plot arg rperiods kwargs = Inr res" "figure_of res = Some fig"
  shows "\<exists>stats col m. arg = DataFrame stats \<and> get_column stats ''max (m^3/s)'' = Inr col
           \<and> py_max col = Inr m
           \<and> yaxis_range (fig_layout fig) = [Some 0, times_cell 1.2 m]"
  using assms
  by (auto simp: forecast_plot_def Let_def split: pyobj.splits if_splits
           dest!: and_then_Inr figure_of_emit)

lemma record_yrange:
  assumes "record_plot arg rperiods kwargs = Inr res" "figure_of res = Some fig"
  shows "\<exists>df col m. arg = DataFrame df \<and> get_column df ''streamflow (m^3/s)'' = Inr col
           \<and> py_max col = Inr m
           \<and> yaxis_range (fig_layout fig) = [Some 0, times_cell 1.2 m]"
  using assms
  by (auto simp: record_plot_def Let_def split: pyobj.splits if_splits
           dest!: and_then_Inr figure_of_emit)

lemma historical_yrange:
  assumes "historical_plot arg rperiods kwargs = Inr res" "figure_of res = Some fig"
  shows "\<exists>df col m. arg = DataFrame df \<and> get_column df ''streamflow (m^3/s)'' = Inr col
           \<and> py_max col = Inr m
           \<and> yaxis_range (fig_layout fig) = [Some 0, times_cell 1.2 m]"
  using assms
  by (auto simp: historical_plot_def Let_def split: pyobj.splits if_splits
           dest!: and_then_Inr figure_of_emit)

lemma seasonal_yrange:
  assumes "seasonal_plot arg kwargs = Inr res" "figure_of res = Some fig"
  shows "\<exists>df col m. arg = DataFrame df \<and> get_column df ''max_flow'' = Inr col
           \<and> py_max col = Inr m
           \<and> yaxis_range (fig_layout fig) = [Some 0, times_cell 1.2 m]"
  using assms
  by (auto simp: seasonal_plot_def Let_def split: pyobj.splits if_splits
           dest!: and_then_Inr figure_of_emit)

lemma flow_duration_yrange:
  assumes "flow_duration_curve_plot arg kwargs = Inr res" "figure_of res = Some fig"
  shows "\<exists>df col m. arg = DataFrame df \<and> get_column df ''streamflow (m^3/s)'' = Inr col
           \<and> first_item (sort_values_descending col) = Inr m
           \<and> yaxis_range (fig_layout fig) = [Some 0, times_cell 1.2 m]"
  using assms
  by (auto simp: flow_duration_curve_plot_def Let_def split: pyobj.splits if_splits
           dest!: and_then_Inr figure_of_emit)

lemma ensembles_yrange:
  fixes arg :: "('i, cell) pyobj"
  assumes "ensembles_plot arg rperiods kwargs = Inr res" "figure_of res = Some fig"
  shows "\<exists>df mf m. arg = DataFrame df
           \<and> map (\<lambda>c. py_max (dropna (snd c))) (df_columns df) = map Inr mf
           \<and> py_max mf = Inr m
           \<and> yaxis_range (fig_layout fig) = [Some 0, times_cell 1.2 m]"
proof -
  from assms obtain df where df: "arg = DataFrame df"
    by (cases arg) (auto simp: ensembles_plot_def Let_def)
  from assms df have "\<exists>(pd0 :: (pykey \<times> 'i pdval) list) pd1 mf m.
      ensembles_loop (df_columns df) pd0 [] = Inr (pd1, mf) \<and> py_max mf = Inr m
      \<and> yaxis_range (fig_layout fig) = [Some 0, times_cell 1.2 m]"
    apply (auto simp: ensembles_plot_def Let_def split: if_splits prod.splits
                dest!: and_then_Inr figure_of_emit)
    by blast
  then obtain pd0 :: "(pykey \<times> 'i pdval) list" and pd1 mf m where
    loop: "ensembles_loop (df_columns df) pd0 [] = Inr (pd1, mf)" and
    m: "py_max mf = Inr m" and
    rng: "yaxis_range (fig_layout fig) = [Some 0, times_cell 1.2 m]"
    by blast
  from ensembles_loop_maxima[OF loop]
  have "map (\<lambda>c. py_max (dropna (snd c))) (df_columns df) = map Inr mf"
    by simp
  with df m rng show ?thesis by blast
qed

lemma Max_insert_max:
  "finite S \<Longrightarrow> Max (insert (max a b) S) = Max (insert a (insert b S))" for a :: real
  by (cases "S = {}") (simp_all add: max.assoc)

lemma foldl_max_numbers:
  "None \<notin> set xs \<Longrightarrow>
   foldl (\<lambda>m v. if cell_gt v m then v else m) (Some a) xs
     = Some (Max (insert a (set (numbers xs))))"
proof (induction xs arbitrary: a)
  case Nil
  then show ?case by (simp add: numbers_def List.map_filter_simps)
next
  case (Cons x xs)
  then obtain b where b: "x = Some b" by (cases x) auto
  have step: "(if cell_gt (Some b) (Some a) then Some b else Some a) = Some (max a b)"
    by (simp add: max_def)
  have nums: "numbers (x # xs) = b # numbers xs"
    using b by (simp add: numbers_def List.map_filter_simps)
  from Cons have "foldl (\<lambda>m v. if cell_gt v m then v else m) (Some (max a b)) xs
        = Some (Max (insert (max a b) (set (numbers xs))))" by simp
  then show ?case
    using b step nums by (simp add: Max_insert_max)
qed

lemma py_max_greatest:
  assumes "xs \<noteq> []" "None \<notin> set xs"
  shows "py_max xs = Inr (Some (Max (set (numbers xs))))"
proof -
  from assms obtain a rest where xs: "xs = Some a # rest"
    by (cases xs) (auto, metis option.exhaust)
  with assms have "None \<notin> set rest" by auto
  from foldl_max_numbers[OF this, of a] show ?thesis
    using xs by (simp add: py_max_def numbers_def List.map_filter_simps)
qed

lemma first_sorted_descending:
  assumes ne: "numbers col \<noteq> []"
  shows "first_item (sort_values_descending col) = Inr (Some (Max (set (numbers col))))"
proof -
  from ne have "rev (sort (numbers col)) \<noteq> []"
    by (metis length_0_conv length_sort rev_is_Nil_conv)
  then obtain y ys where r: "rev (sort (numbers col)) = y # ys"
    by (cases "rev (sort (numbers col))") auto
  have "sorted_wrt (\<lambda>a b. b \<le> a) (rev (sort (numbers col)))"
    by (simp add: sorted_wrt_rev)
  with r have le: "\<And>z. z \<in> set ys \<Longrightarrow> z \<le> y" by simp
  have sets: "set (numbers col) = set (y # ys)"
    using r by (metis set_rev set_sort)
  have "Max (set (y # ys)) = y"
    using le by (intro Max_eqI) auto
  with sets have "Max (set (numbers col)) = y" by simp
  with r show ?thesis
    by (simp add: first_item_def sort_values_descending_def)
qed


text \<open>
  Claim C2, as stated: the y-axis range of a chart is \<open>[0, 1.2 * M]\<close> with \<open>M\<close> the
  largest value among all the series the chart plots. \<^verbatim>\<open>hydroviewer_plot\<close> takes
  \<open>y_max\<close> from the \<^verbatim>\<open>max (m^3/s)\<close> column of the statistics alone: with recorded
  flows up to 100 and a forecast maximum of 15 the range is \<open>[0, 18]\<close>, not
  \<open>[0, 120]\<close>.
\<close>

theorem yaxis_ignores_recorded_flows:
  "result_yrange (hydroviewer_plot (DataFrame sample_records) sample_stats sample_rperiods [])
     = Some [Some 0, Some 18]
   \<and> map_option plotted_maximum
        (result_figure (hydroviewer_plot (DataFrame sample_records) sample_stats sample_rperiods []))
     = Some 100
   \<and> [Some 0, Some 18] \<noteq> [Some 0, Some (1.2 * 100 :: real)]"
  by (simp add: hydroviewer_plot_def sample_defs eval_defs plotted_maximum_def
        plotted_values_def numbers_def List.map_filter_simps make_datetime_def dropna_def scatter_def
        minplot_def maxplot_def meanplot_def stdlowplot_def stdupplot_def hiresplot_def)

text \<open>
  Claim C2, amended. Whenever a chart-building entry point produces a figure, its
  y-axis range is \<open>[0, 1.2 * y_max]\<close>, where \<open>y_max\<close> is Python's \<^verbatim>\<open>max\<close> of
  one designated column and not of all plotted series: the \<^verbatim>\<open>max (m^3/s)\<close> column of
  the statistics for \<^verbatim>\<open>hydroviewer_plot\<close> and \<^verbatim>\<open>forecast_plot\<close> (recorded
  flows, standard-deviation bounds and the high-resolution series are not consulted);
  the \<^verbatim>\<open>streamflow (m^3/s)\<close> column for \<^verbatim>\<open>record_plot\<close> and
  \<^verbatim>\<open>historical_plot\<close>; the maxima of all ensemble columns for
  \<^verbatim>\<open>ensembles_plot\<close>; the \<^verbatim>\<open>max_flow\<close> column for \<^verbatim>\<open>seasonal_plot\<close>;
  and the first of the flows sorted in descending order for
  \<^verbatim>\<open>flow_duration_curve_plot\<close>. On a column without missing values Python's
  \<^verbatim>\<open>max\<close> is the greatest value, and so is the first sorted flow.
\<close>

theorem yaxis_range_from_y_max:
  "(result_figure (hydroviewer_plot records stats rperiods kwargs) = Some fig \<longrightarrow>
      (\<exists>col m. get_column stats ''max (m^3/s)'' = Inr col \<and> py_max col = Inr m
         \<and> yaxis_range (fig_layout fig) = [Some 0, times_cell 1.2 m]))
   \<and> (result_figure (forecast_plot arg2 rperiods2 kwargs2) = Some fig2 \<longrightarrow>
      (\<exists>df col m. arg2 = DataFrame df \<and> get_column df ''max (m^3/s)'' = Inr col
         \<and> py_max col = Inr m
         \<and> yaxis_range (fig_layout fig2) = [Some 0, times_cell 1.2 m]))
   \<and> (result_figure (record_plot arg3 rperiods3 kwargs3) = Some fig3 \<longrightarrow>
      (\<exists>df col m. arg3 = DataFrame df \<and> get_column df ''streamflow (m^3/s)'' = Inr col
         \<and> py_max col = Inr m
         \<and> yaxis_range (fig_layout fig3) = [Some 0, times_cell 1.2 m]))
   \<and> (result_figure (ensembles_plot arg4 rperiods4 kwargs4) = Some fig4 \<longrightarrow>
      (\<exists>df maxima m. arg4 = DataFrame df
         \<and> map (\<lambda>c. py_max (dropna (snd c))) (df_columns df) = map Inr maxima
         \<and> py_max maxima = Inr m
         \<and> yaxis_range (fig_layout fig4) = [Some 0, times_cell 1.2 m]))
   \<and> (result_figure (historical_plot arg5 rperiods5 kwargs5) = Some fig5 \<longrightarrow>
      (\<exists>df col m. arg5 = DataFrame df \<and> get_column df ''streamflow (m^3/s)'' = Inr col
         \<and> py_max col = Inr m
         \<and> yaxis_range (fig_layout fig5) = [Some 0, times_cell 1.2 m]))
   \<and> (result_figure (seasonal_plot arg6 kwargs6) = Some fig6 \<longrightarrow>
      (\<exists>df col m. arg6 = DataFrame df \<and> get_column df ''max_flow'' = Inr col
         \<and> py_max col = Inr m
         \<and> yaxis_range (fig_layout fig6) = [Some 0, times_cell 1.2 m]))
   \<and> (result_figure (flow_duration_curve_plot arg7 kwargs7) = Some fig7 \<longrightarrow>
      (\<exists>df col m. arg7 = DataFrame df \<and> get_column df ''streamflow (m^3/s)'' = Inr col
         \<and> first_item (sort_values_descending col) = Inr m
         \<and> yaxis_range (fig_layout fig7) = [Some 0, times_cell 1.2 m]))
   \<and> (xs \<noteq> [] \<and> None \<notin> set xs \<longrightarrow> py_max xs = Inr (Some (Max (set (numbers xs)))))
   \<and> (numbers ys \<noteq> [] \<longrightarrow>
        first_item (sort_values_descending ys) = Inr (Some (Max (set (numbers ys)))))"
proof (intro conjI impI)
  assume "result_figure (hydroviewer_plot records stats rperiods kwargs) = Some fig"
  then show "\<exists>col m. get_column stats ''max (m^3/s)'' = Inr col \<and> py_max col = Inr m
         \<and> yaxis_range (fig_layout fig) = [Some 0, times_cell 1.2 m]"
    by (blast dest: result_figure_Some hydroviewer_yrange)
next
  assume "result_figure (forecast_plot arg2 rperiods2 kwargs2) = Some fig2"
  then show "\<exists>df col m. arg2 = DataFrame df \<and> get_column df ''max (m^3/s)'' = Inr col
         \<and> py_max col = Inr m
         \<and> yaxis_range (fig_layout fig2) = [Some 0, times_cell 1.2 m]"
    by (blast dest: result_figure_Some forecast_yrange)
next
  assume "result_figure (record_plot arg3 rperiods3 kwargs3) = Some fig3"
  then show "\<exists>df col m. arg3 = DataFrame df \<and> get_column df ''streamflow (m^3/s)'' = Inr col
         \<and> py_max col = Inr m
         \<and> yaxis_range (fig_layout fig3) = [Some 0, times_cell 1.2 m]"
    by (blast dest: result_figure_Some record_yrange)
next
  assume "result_figure (ensembles_plot arg4 rperiods4 kwargs4) = Some fig4"
  then show "\<exists>df maxima m. arg4 = DataFrame df
         \<and> map (\<lambda>c. py_max (dropna (snd c))) (df_columns df) = map Inr maxima
         \<and> py_max maxima = Inr m
         \<and> yaxis_range (fig_layout fig4) = [Some 0, times_cell 1.2 m]"
    by (blast dest: result_figure_Some ensembles_yrange)
next
  assume "result_figure (historical_plot arg5 rperiods5 kwargs5) = Some fig5"
  then show "\<exists>df col m. arg5 = DataFrame df \<and> get_column df ''streamflow (m^3/s)'' = Inr col
         \<and> py_max col = Inr m
         \<and> yaxis_range (fig_layout fig5) = [Some 0, times_cell 1.2 m]"
    by (blast dest: result_figure_Some historical_yrange)
next
  assume "result_figure (seasonal_plot arg6 kwargs6) = Some fig6"
  then show "\<exists>df col m. arg6 = DataFrame df \<and> get_column df ''max_flow'' = Inr col
         \<and> py_max col = Inr m
         \<and> yaxis_range (fig_layout fig6) = [Some 0, times_cell 1.2 m]"
    by (blast dest: result_figure_Some seasonal_yrange)
next
  assume "result_figure (flow_duration_curve_plot arg7 kwargs7) = Some fig7"
  then show "\<exists>df col m. arg7 = DataFrame df \<and> get_column df ''streamflow (m^3/s)'' = Inr col
         \<and> first_item (sort_values_descending col) = Inr m
         \<and> yaxis_range (fig_layout fig7) = [Some 0, times_cell 1.2 m]"
    by (blast dest: result_figure_Some flow_duration_yrange)
next
  assume "xs \<noteq> [] \<and> None \<notin> set xs"
  then show "py_max xs = Inr (Some (Max (set (numbers xs))))"
    by (simp add: py_max_greatest)
next
  assume "numbers ys \<noteq> []"
  then show "first_item (sort_values_descending ys) = Inr (Some (Max (set (numbers ys))))"
    by (rule first_sorted_descending)
qed

lemma yrange_of_figure:
  "result_figure r = Some fig \<Longrightarrow> yaxis_range (fig_layout fig) = v \<Longrightarrow> result_yrange r = Some v"
  by (simp add: result_yrange_def)

lemma sample_ensembles_maxima:
  "map (\<lambda>c. py_max (dropna (snd c))) (df_columns sample_ensembles)
     = map Inr (map (\<lambda>k. Some (real k)) [1..<53])"
  by code_simp

lemma sample_maxima_max: "py_max (map (\<lambda>k. Some (real k)) [1..<53]) = Inr (Some 52)"
  by code_simp

lemma sample_ensembles_figure:
  "result_figure (ensembles_plot (DataFrame sample_ensembles) sample_rperiods []) \<noteq> None"
  by code_simp

theorem yaxis_range_from_y_max_witness:
  "result_yrange (hydroviewer_plot (DataFrame sample_records) sample_stats sample_rperiods [])
     = Some [Some 0, Some 18]
   \<and> result_yrange (forecast_plot (DataFrame sample_stats) sample_rperiods [])
     = Some [Some 0, Some 18]
   \<and> result_yrange (record_plot (DataFrame sample_records) sample_rperiods [])
     = Some [Some 0, Some 120]
   \<and> result_yrange (ensembles_plot (DataFrame sample_ensembles) sample_rperiods [])
     = Some [Some 0, Some 62.4]
   \<and> result_yrange (historical_plot (DataFrame sample_hist) sample_rperiods [])
     = Some [Some 0, Some 10.8]
   \<and> result_yrange (seasonal_plot (DataFrame sample_seasonal) [] ::
        pyerror + ((string \<times> string pdval) list, (string, unit) figure) plot_result)
     = Some [Some 0, Some 12]
   \<and> result_yrange (flow_duration_curve_plot (DataFrame sample_hist) [] ::
        pyerror + ((string \<times> timestamp pdval) list, (cell, unit) figure) plot_result)
     = Some [Some 0, Some 10.8]
   \<and> py_max [Some 15, Some 14] = Inr (Some (Max (set (numbers [Some 15, Some 14]))))
   \<and> first_item (sort_values_descending [Some 7, Some 9, Some 7])
     = Inr (Some (Max (set (numbers [Some 7, Some 9, Some 7]))))"
proof -
  note main = yaxis_range_from_y_max
  have 1: "result_yrange (hydroviewer_plot (DataFrame sample_records) sample_stats sample_rperiods [])
     = Some [Some 0, Some 18]"
  proof -
    obtain fig where f: "result_figure (hydroviewer_plot (DataFrame sample_records)
        sample_stats sample_rperiods []) = Some fig"
      by (simp add: hydroviewer_plot_def sample_defs eval_defs)
    from main[THEN conjunct1, rule_format, OF f]
    have "yaxis_range (fig_layout fig) = [Some 0, Some 18]"
      by (auto simp: sample_defs get_column_def py_max_def times_cell_def)
    with f show ?thesis by (rule yrange_of_figure)
  qed
  have 2: "result_yrange (forecast_plot (DataFrame sample_stats) sample_rperiods [])
     = Some [Some 0, Some 18]"
  proof -
    obtain fig where f: "result_figure (forecast_plot (DataFrame sample_stats) sample_rperiods [])
        = Some fig"
      by (simp add: forecast_plot_def sample_defs eval_defs)
    from main[THEN conjunct2, THEN conjunct1, rule_format, OF f]
    have "yaxis_range (fig_layout fig) = [Some 0, Some 18]"
      by (auto simp: sample_defs get_column_def py_max_def times_cell_def)
    with f show ?thesis by (rule yrange_of_figure)
  qed
  have 3: "result_yrange (record_plot (DataFrame sample_records) sample_rperiods [])
     = Some [Some 0, Some 120]"
  proof -
    obtain fig where f: "result_figure (record_plot (DataFrame sample_records) sample_rperiods [])
        = Some fig"
      by (simp add: record_plot_def sample_defs eval_defs)
    from main[THEN conjunct2, THEN conjunct2, THEN conjunct1, rule_format, OF f]
    have "yaxis_range (fig_layout fig) = [Some 0, Some 120]"
      by (auto simp: sample_defs get_column_def py_max_def times_cell_def)
    with f show ?thesis by (rule yrange_of_figure)
  qed
  have 4: "result_yrange (ensembles_plot (DataFrame sample_ensembles) sample_rperiods [])
     = Some [Some 0, Some 62.4]"
  proof -
    obtain fig where f: "result_figure (ensembles_plot (DataFrame sample_ensembles)
        sample_rperiods []) = Some fig"
      using sample_ensembles_figure by blast
    from main[THEN conjunct2, THEN conjunct2, THEN conjunct2, THEN conjunct1, rule_format, OF f]
    obtain maxima m where
      a: "map (\<lambda>c. py_max (dropna (snd c))) (df_columns sample_ensembles) = map Inr maxima"
      and b: "py_max maxima = Inr m"
      and c: "yaxis_range (fig_layout fig) = [Some 0, times_cell 1.2 m]"
      by auto
    from a have "map Inr (map (\<lambda>k. Some (real k)) [1..<53]) = (map Inr maxima :: (pyerror + cell) list)"
      by (simp only: sample_ensembles_maxima)
    then have eq: "map (\<lambda>k. Some (real k)) [1..<53] = maxima"
      by (rule map_injective) simp
    have "py_max (map (\<lambda>k. Some (real k)) [1..<53]) = Inr m"
      using b by (simp only: eq)
    then have "Inr (Some 52) = (Inr m :: pyerror + cell)"
      by (simp only: sample_maxima_max)
    then have "m = Some 52" by simp
    with c have "yaxis_range (fig_layout fig) = [Some 0, Some 62.4]"
      by (simp add: times_cell_def)
    with f show ?thesis by (rule yrange_of_figure)
  qed
  have 5: "result_yrange (historical_plot (DataFrame sample_hist) sample_rperiods [])
     = Some [Some 0, Some 10.8]"
  proof -
    obtain fig where f: "result_figure (historical_plot (DataFrame sample_hist) sample_rperiods [])
        = Some fig"
      by (simp add: historical_plot_def sample_defs eval_defs)
    from main[THEN conjunct2, THEN conjunct2, THEN conjunct2, THEN conjunct2, THEN conjunct1,
        rule_format, OF f]
    have "yaxis_range (fig_layout fig) = [Some 0, Some 10.8]"
      by (auto simp: sample_defs get_column_def py_max_def times_cell_def)
    with f show ?thesis by (rule yrange_of_figure)
  qed
  have 6: "result_yrange (seasonal_plot (DataFrame sample_seasonal) [] ::
        pyerror + ((string \<times> string pdval) list, (string, unit) figure) plot_result)
     = Some [Some 0, Some 12]"
  proof -
    obtain fig where f: "result_figure (seasonal_plot (DataFrame sample_seasonal) [] ::
        pyerror + ((string \<times> string pdval) list, (string, unit) figure) plot_result) = Some fig"
      by (simp add: seasonal_plot_def sample_defs eval_defs)
    from main[THEN conjunct2, THEN conjunct2, THEN conjunct2, THEN conjunct2, THEN conjunct2,
        THEN conjunct1, rule_format, OF f]
    have "yaxis_range (fig_layout fig) = [Some 0, Some 12]"
      by (auto simp: sample_defs get_column_def py_max_def times_cell_def)
    with f show ?thesis by (rule yrange_of_figure)
  qed
  have 7: "result_yrange (flow_duration_curve_plot (DataFrame sample_hist) [] ::
        pyerror + ((string \<times> timestamp pdval) list, (cell, unit) figure) plot_result)
     = Some [Some 0, Some 10.8]"
  proof -
    obtain fig where f: "result_figure (flow_duration_curve_plot (DataFrame sample_hist) [] ::
        pyerror + ((string \<times> timestamp pdval) list, (cell, unit) figure) plot_result) = Some fig"
      by (simp add: flow_duration_curve_plot_def sample_defs eval_defs
            sort_values_descending_def numbers_def List.map_filter_simps)
    from main[THEN conjunct2, THEN conjunct2, THEN conjunct2, THEN conjunct2, THEN conjunct2,
        THEN conjunct2, THEN conjunct1, rule_format, OF f]
    have "yaxis_range (fig_layout fig) = [Some 0, Some 10.8]"
      by (auto simp: sample_defs get_column_def first_item_def times_cell_def
            sort_values_descending_def numbers_def List.map_filter_simps)
    with f show ?thesis by (rule yrange_of_figure)
  qed
  have 8: "py_max [Some 15, Some 14] = Inr (Some (Max (set (numbers [Some 15, Some 14]))))"
    using main[THEN conjunct2, THEN conjunct2, THEN conjunct2, THEN conjunct2, THEN conjunct2,
        THEN conjunct2, THEN conjunct2, THEN conjunct1, rule_format, of "[Some 15, Some 14]"]
    by simp
  have 9: "first_item (sort_values_descending [Some 7, Some 9, Some 7])
     = Inr (Some (Max (set (numbers [Some 7, Some 9, Some 7]))))"
    using main[THEN conjunct2, THEN conjunct2, THEN conjunct2, THEN conjunct2, THEN conjunct2,
        THEN conjunct2, THEN conjunct2, THEN conjunct2, rule_format, of "[Some 7, Some 9, Some 7]"]
    by (simp add: numbers_def List.map_filter_simps)
  from 1 2 3 4 5 6 7 8 9 show ?thesis by blast
qed

subsection \<open>Unsupported return formats\<close>

text \<open>
  Claim C8, as stated: a return format outside the supported set makes
  \<^verbatim>\<open>_make_request\<close> fail before any network I/O. The code issues the HTTP request
  first and looks at the format afterwards: with \<open>return_format = 'xml'\<close> the call
  fails, and one request has gone out.
\<close>

theorem unsupported_format_after_request:
  "make_request quiet_server no_json strptime BYU_ENDPOINT ''ForecastStats/'' xml_params ''xml''
     = (Inl (ValueError ''Unsupported return format requested: xml''),
        [(''https://tethys2.byu.edu/localsptapi/api/ForecastStats/'', xml_params)])
   \<and> snd (make_request quiet_server no_json strptime BYU_ENDPOINT ''ForecastStats/'' xml_params ''xml'')
       \<noteq> []"
  by (simp add: make_request_def process_response_def quiet_server_def BYU_ENDPOINT_def)

text \<open>
  Claim C8, amended. For every call of \<^verbatim>\<open>_make_request\<close> with a return format
  outside \<open>csv\<close>, \<open>json\<close>, \<open>waterml\<close>, \<open>request\<close>, exactly one HTTP
  request is issued, for \<open>endpoint + method\<close> with the given parameters; when it
  is answered the call fails with the error "Unsupported return format requested",
  and when the request itself fails, its error is raised.
\<close>

theorem unsupported_format_rejected_late:
  assumes "return_format \<notin> {''csv'', ''json'', ''waterml'', ''request''}"
  shows "make_request server json_loads to_datetime endpoint api_method params return_format
           = ((case server (endpoint @ api_method) params of
                 Inl e \<Rightarrow> Inl e
               | Inr data \<Rightarrow>
                   Inl (ValueError (''Unsupported return format requested: '' @ return_format))),
              [(endpoint @ api_method, params)])"
  using assms by (simp add: make_request_def process_response_def split: sum.splits)

theorem unsupported_format_rejected_late_witness:
  "''xml'' \<notin> {''csv'', ''json'', ''waterml'', ''request''}
   \<and> make_request quiet_server no_json strptime BYU_ENDPOINT ''ForecastStats/'' xml_params ''xml''
       = (Inl (ValueError ''Unsupported return format requested: xml''),
          [(BYU_ENDPOINT @ ''ForecastStats/'', xml_params)])"
proof -
  have h: "''xml'' \<notin> {''csv'', ''json'', ''waterml'', ''request''}" by simp
  from unsupported_format_rejected_late [OF h, where server = quiet_server
      and endpoint = BYU_ENDPOINT and api_method = "''ForecastStats/''" and params = xml_params
      and json_loads = no_json and to_datetime = strptime]
  show ?thesis using h by (simp add: quiet_server_def)
qed

subsection \<open>The index of a parsed time series\<close>

lemma traverse_Inr: "traverse f xs = Inr ys \<Longrightarrow> map f xs = map Inr ys"
  by (induction xs arbitrary: ys) (auto split: sum.splits)

lemma sorted_wrt_Inr_map:
  fixes f :: "'a \<Rightarrow> 'e + 'b::linorder"
  assumes "map f xs = map Inr ys"
  shows "sorted_wrt (\<lambda>a b. \<exists>x y. f a = Inr x \<and> f b = Inr y \<and> x < y) xs = sorted_wrt (<) ys"
proof -
  have "sorted_wrt (\<lambda>a b. \<exists>x y. f a = Inr x \<and> f b = Inr y \<and> x < y) xs
        = sorted_wrt (\<lambda>u v. \<exists>x y. u = Inr x \<and> v = Inr y \<and> x < y) (map f xs)"
    by (simp add: sorted_wrt_map)
  also have "\<dots> = sorted_wrt (\<lambda>u v. \<exists>x y. u = Inr x \<and> v = Inr y \<and> x < y)
                      (map Inr ys :: ('e + 'b) list)"
    by (simp only: assms)
  also have "\<dots> = sorted_wrt (<) ys"
    by (simp add: sorted_wrt_map)
  finally show ?thesis .
qed

text \<open>
  Claim C5, as stated: the table parsed from a timestamp-indexed payload has a strictly
  increasing index, whatever the order of the rows in the payload. The parser neither
  sorts nor removes duplicates: a payload listing the later day first yields an index
  in that order.
\<close>

theorem index_keeps_payload_order_cex:
  "fst (make_request descending_server no_json strptime BYU_ENDPOINT ''HistoricSimulation/''
          csv_params ''csv'')
     = Inr (TimeFrame \<lparr>df_index = [make_datetime 2020 5 13 0, make_datetime 2020 5 12 0],
                       df_columns = [(''streamflow (m^3/s)'', [''2.5'', ''1.5''])]\<rparr>)
   \<and> \<not> sorted_wrt (<) [make_datetime 2020 5 13 0, make_datetime 2020 5 12 0]"
  by code_simp

text \<open>
  Claim C5, amended. For every product other than forecast warnings, return periods and
  the seasonal average, the index of the table parsed from a \<open>csv\<close> response is the
  \<^verbatim>\<open>datetime\<close> column of the payload, entry by entry converted by
  \<^verbatim>\<open>pandas.to_datetime\<close>, in the order of the payload's rows, and the other
  columns are kept as read. Hence the index is strictly increasing exactly when the
  rows of the payload are in strictly increasing order of time.
\<close>

theorem timestamp_index_in_payload_order:
  fixes to_datetime :: "string \<Rightarrow> pyerror + 't::linorder"
  assumes "method \<notin> {''ForecastWarnings/'', ''ReturnPeriods/'', ''SeasonalAverage/''}"
    and "fst (make_request server json_loads to_datetime endpoint method params ''csv'')
           = Inr (TimeFrame tmp)"
  shows "\<exists>data raw. server (endpoint @ method) params = Inr data
           \<and> read_csv (response_text data) ''datetime'' = Inr raw
           \<and> map to_datetime (df_index raw) = map Inr (df_index tmp)
           \<and> df_columns tmp = df_columns raw
           \<and> (sorted_wrt (<) (df_index tmp) \<longleftrightarrow>
                sorted_wrt (\<lambda>a b. \<exists>x y. to_datetime a = Inr x \<and> to_datetime b = Inr y \<and> x < y)
                  (df_index raw))"
proof -
  from assms obtain data where data: "server (endpoint @ method) params = Inr data"
    and pr: "process_response json_loads to_datetime method ''csv'' data = Inr (TimeFrame tmp)"
    by (auto simp: make_request_def split: sum.splits)
  from pr assms(1) obtain raw stamps where raw: "read_csv (response_text data) ''datetime'' = Inr raw"
    and st: "traverse to_datetime (df_index raw) = Inr stamps"
    and tmp: "tmp = \<lparr>df_index = stamps, df_columns = df_columns raw\<rparr>"
    by (auto simp: process_response_def dest!: and_then_Inr)
  from traverse_Inr[OF st] tmp have m: "map to_datetime (df_index raw) = map Inr (df_index tmp)"
    by simp
  from sorted_wrt_Inr_map[OF m] data raw m tmp show ?thesis by auto
qed

theorem timestamp_index_in_payload_order_witness:
  "''HistoricSimulation/'' \<notin> {''ForecastWarnings/'', ''ReturnPeriods/'', ''SeasonalAverage/''}
   \<and> fst (make_request ascending_server no_json strptime BYU_ENDPOINT ''HistoricSimulation/''
            csv_params ''csv'')
       = Inr (TimeFrame \<lparr>df_index = [make_datetime 2020 5 12 0, make_datetime 2020 5 13 0],
                         df_columns = [(''streamflow (m^3/s)'', [''1.5'', ''2.5''])]\<rparr>)
   \<and> (\<exists>data raw. ascending_server (BYU_ENDPOINT @ ''HistoricSimulation/'') csv_params = Inr data
         \<and> read_csv (response_text data) ''datetime'' = Inr raw
         \<and> map strptime (df_index raw)
             = map Inr [make_datetime 2020 5 12 0, make_datetime 2020 5 13 0]
         \<and> (sorted_wrt (<) [make_datetime 2020 5 12 0, make_datetime 2020 5 13 0] \<longleftrightarrow>
              sorted_wrt (\<lambda>a b. \<exists>x y. strptime a = Inr x \<and> strptime b = Inr y \<and> x < y)
                (df_index raw)))
   \<and> sorted_wrt (<) [make_datetime 2020 5 12 0, make_datetime 2020 5 13 0]"
proof -
  have h1: "''HistoricSimulation/'' \<notin> {''ForecastWarnings/'', ''ReturnPeriods/'', ''SeasonalAverage/''}"
    by simp
  have h2: "fst (make_request ascending_server no_json strptime BYU_ENDPOINT ''HistoricSimulation/''
            csv_params ''csv'')
       = Inr (TimeFrame \<lparr>df_index = [make_datetime 2020 5 12 0, make_datetime 2020 5 13 0],
                         df_columns = [(''streamflow (m^3/s)'', [''1.5'', ''2.5''])]\<rparr>)"
    by code_simp
  have h3: "sorted_wrt (<) [make_datetime 2020 5 12 0, make_datetime 2020 5 13 0]"
    by code_simp
  from timestamp_index_in_payload_order [OF h1 h2] h1 h2 h3 show ?thesis
    by auto
qed

subsection \<open>Day labels of the seasonal average\<close>

lemma traverse_pointwise:
  "(\<And>x. x \<in> set xs \<Longrightarrow> f x = Inr (g x)) \<Longrightarrow> traverse f xs = Inr (map g xs)"
  by (induction xs) auto

lemma all_days: "list_all (\<lambda>d. seasonal_label d = Inr (nonleap_label (d + 1))) [0..364]"
  by code_simp

lemma seasonal_label_in_year:
  assumes "0 \<le> d" "d \<le> 364"
  shows "seasonal_label d = Inr (nonleap_label (d + 1))"
proof -
  from all_days have "\<forall>n\<in>set [0..364]. seasonal_label n = Inr (nonleap_label (n + 1))"
    by (simp only: list_all_iff)
  moreover from assms have "d \<in> set [0..364]"
    by (simp only: set_upto atLeastAtMost_iff)
  ultimately show ?thesis by blast
qed

text \<open>
  Claim C6, as stated: the parser converts each day-of-year index value \<open>d\<close> from 1 to
  366 to a month and day label of a year without leap day, day 1 being the first of
  January. The parser adds 1 to every index value before reading it as a day of the
  year: the index value 1 is labelled as the second of January, and for the index value
  366 the conversion fails.
\<close>

theorem seasonal_label_day_one:
  "seasonal_label 1 = Inr ''Jan 02''
   \<and> seasonal_label 366 = Inl (ValueError ''time data 367 does not match format %j'')"
  by code_simp

text \<open>
  Claim C6, amended. The parser labels the index value \<open>d\<close> of the seasonal average as
  day \<open>d + 1\<close> of a year without leap day, for every \<open>d\<close> from 0 to 364: the
  values are counted from 0, so that 0 is the first of January and 364 the last of
  December. The shift by one is applied to every entry of the index alike, and the
  labelled table keeps the columns of the payload. An index value below 0 or above 365
  makes the conversion fail.
\<close>

theorem seasonal_labels_shifted_by_one:
  "(0 \<le> d \<and> d \<le> 364 \<longrightarrow> seasonal_label d = Inr (nonleap_label (d + 1)))
   \<and> (d < 0 \<or> 365 < d \<longrightarrow> (\<exists>e. seasonal_label d = Inl e))
   \<and> (traverse py_int entries = Inr ds \<and> (\<forall>n\<in>set ds. 0 \<le> n \<and> n \<le> 364) \<longrightarrow>
        seasonal_index entries = Inr (map (\<lambda>n. nonleap_label (n + 1)) ds))
   \<and> (process_response json_loads to_datetime ''SeasonalAverage/'' ''csv'' data = Inr r \<longrightarrow>
        (\<exists>tmp labels. read_csv (response_text data) ''day_of_year'' = Inr tmp
           \<and> seasonal_index (df_index tmp) = Inr labels
           \<and> r = Frame (tmp\<lparr>df_index := labels\<rparr>)))
   \<and> nonleap_label 1 = ''Jan 01'' \<and> nonleap_label 2 = ''Jan 02''
   \<and> nonleap_label 365 = ''Dec 31''"
proof (intro conjI impI)
  assume "0 \<le> d \<and> d \<le> 364"
  then show "seasonal_label d = Inr (nonleap_label (d + 1))"
    by (simp add: seasonal_label_in_year)
next
  assume "d < 0 \<or> 365 < d"
  then show "\<exists>e. seasonal_label d = Inl e"
    by (auto simp: seasonal_label_def julian_label_def)
next
  assume a: "traverse py_int entries = Inr ds \<and> (\<forall>n\<in>set ds. 0 \<le> n \<and> n \<le> 364)"
  then have "traverse seasonal_label ds = Inr (map (\<lambda>n. nonleap_label (n + 1)) ds)"
    by (intro traverse_pointwise) (simp add: seasonal_label_in_year)
  with a show "seasonal_index entries = Inr (map (\<lambda>n. nonleap_label (n + 1)) ds)"
    by (simp add: seasonal_index_def)
next
  assume "process_response json_loads to_datetime ''SeasonalAverage/'' ''csv'' data = Inr r"
  then show "\<exists>tmp labels. read_csv (response_text data) ''day_of_year'' = Inr tmp
           \<and> seasonal_index (df_index tmp) = Inr labels
           \<and> r = Frame (tmp\<lparr>df_index := labels\<rparr>)"
    by (auto simp: process_response_def dest!: and_then_Inr)
next
  show "nonleap_label 1 = ''Jan 01''" by code_simp
next
  show "nonleap_label 2 = ''Jan 02''" by code_simp
next
  show "nonleap_label 365 = ''Dec 31''" by code_simp
qed

theorem seasonal_labels_shifted_by_one_witness:
  "seasonal_label 0 = Inr ''Jan 01''
   \<and> seasonal_label 364 = Inr ''Dec 31''
   \<and> (\<exists>e. seasonal_label 366 = Inl e)
   \<and> traverse py_int [''0'', ''1''] = Inr [0, 1]
   \<and> seasonal_index [''0'', ''1''] = Inr [''Jan 01'', ''Jan 02'']
   \<and> process_response no_json strptime ''SeasonalAverage/'' ''csv'' (Response seasonal_payload)
       = Inr (Frame \<lparr>df_index = [''Jan 01'', ''Jan 02''],
                     df_columns = [(''streamflow (m^3/s)'', [''4'', ''5'']),
                                   (''max_flow'', [''8'', ''10'']),
                                   (''min_flow'', [''1'', ''2''])]\<rparr>)
   \<and> (\<exists>tmp labels. read_csv (response_text (Response seasonal_payload)) ''day_of_year'' = Inr tmp
           \<and> seasonal_index (df_index tmp) = Inr labels
           \<and> Frame \<lparr>df_index = [''Jan 01'', ''Jan 02''],
                     df_columns = [(''streamflow (m^3/s)'', [''4'', ''5'']),
                                   (''max_flow'', [''8'', ''10'']),
                                   (''min_flow'', [''1'', ''2''])]\<rparr>
               = (Frame (tmp\<lparr>df_index := labels\<rparr>) :: (timestamp, unit) reply))"
proof -
  note main = seasonal_labels_shifted_by_one
  have lab: "nonleap_label 1 = ''Jan 01''" "nonleap_label 2 = ''Jan 02''"
    "nonleap_label 365 = ''Dec 31''"
    by code_simp+
  have 1: "seasonal_label 0 = Inr ''Jan 01''"
    using main[THEN conjunct1, rule_format, of 0] lab by simp
  have 2: "seasonal_label 364 = Inr ''Dec 31''"
    using main[THEN conjunct1, rule_format, of 364] lab by simp
  have 3: "\<exists>e. seasonal_label 366 = Inl e"
    using main[THEN conjunct2, THEN conjunct1, rule_format, of 366] by simp
  have 4: "traverse py_int [''0'', ''1''] = Inr [0, 1]"
    by code_simp
  have 5: "seasonal_index [''0'', ''1''] = Inr [''Jan 01'', ''Jan 02'']"
    using main[THEN conjunct2, THEN conjunct2, THEN conjunct1, rule_format,
        of "[''0'', ''1'']" "[0, 1]"] 4 lab by simp
  have 6: "process_response no_json strptime ''SeasonalAverage/'' ''csv'' (Response seasonal_payload)
       = Inr (Frame \<lparr>df_index = [''Jan 01'', ''Jan 02''],
                     df_columns = [(''streamflow (m^3/s)'', [''4'', ''5'']),
                                   (''max_flow'', [''8'', ''10'']),
                                   (''min_flow'', [''1'', ''2''])]\<rparr>)"
    by code_simp
  from main[THEN conjunct2, THEN conjunct2, THEN conjunct2, THEN conjunct1, rule_format, OF 6]
    1 2 3 4 5 6
  show ?thesis by auto
qed

subsection \<open>Exceedance roll-up\<close>

lemma py_round_mono: "x \<le> y \<Longrightarrow> py_round x \<le> py_round y"
proof -
  assume xy: "x \<le> y"
  then have fl: "\<lfloor>x\<rfloor> \<le> \<lfloor>y\<rfloor>" by (rule floor_mono)
  have bx: "py_round x \<le> \<lfloor>x\<rfloor> + 1" and by': "\<lfloor>y\<rfloor> \<le> py_round y"
    by (auto simp: py_round_def Let_def)
  show ?thesis
  proof (cases "\<lfloor>x\<rfloor> = \<lfloor>y\<rfloor>")
    case True
    with xy show ?thesis
      by (auto simp: py_round_def Let_def)
  next
    case False
    with fl have "\<lfloor>x\<rfloor> + 1 \<le> \<lfloor>y\<rfloor>" by simp
    with bx by' show ?thesis by linarith
  qed
qed

lemma tally_counts:
  "tally cols rp2 rp10 rp20 (n2, n10, n20) =
     (n2 + length (filter (\<lambda>c. exceeds (snd c) rp20 \<or> exceeds (snd c) rp10 \<or> exceeds (snd c) rp2) cols),
      n10 + length (filter (\<lambda>c. exceeds (snd c) rp20 \<or> exceeds (snd c) rp10) cols),
      n20 + length (filter (\<lambda>c. exceeds (snd c) rp20) cols))"
  by (induction cols arbitrary: n2 n10 n20) auto

lemma days_loop_rows:
  "days_loop uniqueday ensembles rp2 rp10 rp20 = Inr rows \<Longrightarrow>
   length rows = length uniqueday - 1 \<and>
   (\<forall>i<length rows. \<exists>tmp. loc_slice ensembles (uniqueday ! i) (uniqueday ! Suc i) = Inr tmp
        \<and> rows ! i = day_row_of (uniqueday ! i) (df_columns tmp) rp2 rp10 rp20)"
proof (induction uniqueday ensembles rp2 rp10 rp20 arbitrary: rows rule: days_loop.induct)
  case (1 d0 d1 rest ensembles rp2 rp10 rp20)
  from "1.prems" obtain tmp where tmp: "loc_slice ensembles d0 d1 = Inr tmp"
    by (auto split: sum.splits)
  obtain num2 num10 num20 where t: "tally (df_columns tmp) rp2 rp10 rp20 (0, 0, 0) = (num2, num10, num20)"
    by (cases "tally (df_columns tmp) rp2 rp10 rp20 (0, 0, 0)") auto
  from "1.prems" tmp t obtain rows' where
    rec: "days_loop (d1 # rest) ensembles rp2 rp10 rp20 = Inr rows'" and
    rows: "rows = \<lparr>day_label = strftime_b_d d0,
                    count2 = num2, count10 = num10, count20 = num20,
                    percent2 = py_round (real num2 * 100 / 52),
                    percent10 = py_round (real num10 * 100 / 52),
                    percent20 = py_round (real num20 * 100 / 52)\<rparr> # rows'"
    by (auto split: sum.splits)
  from t have row0: "rows ! 0 = day_row_of d0 (df_columns tmp) rp2 rp10 rp20"
    by (simp add: rows tally_counts day_row_of_def)
  from "1.IH"[OF tmp t[symmetric] refl rec]
  have len: "length rows' = length (d1 # rest) - 1"
    and ih: "\<forall>i<length rows'. \<exists>tmp. loc_slice ensembles ((d1 # rest) ! i) ((d1 # rest) ! Suc i) = Inr tmp
        \<and> rows' ! i = day_row_of ((d1 # rest) ! i) (df_columns tmp) rp2 rp10 rp20"
    by auto
  show ?case
  proof (intro conjI allI impI)
    show "length rows = length (d0 # d1 # rest) - 1" using len rows by simp
  next
    fix i assume i: "i < length rows"
    show "\<exists>tmp. loc_slice ensembles ((d0 # d1 # rest) ! i) ((d0 # d1 # rest) ! Suc i) = Inr tmp
        \<and> rows ! i = day_row_of ((d0 # d1 # rest) ! i) (df_columns tmp) rp2 rp10 rp20"
    proof (cases i)
      case 0
      with tmp row0 show ?thesis by auto
    next
      case (Suc j)
      with i rows have "j < length rows'" by simp
      with ih Suc rows show ?thesis by auto
    qed
  qed
qed simp_all

lemma day_row_of_order:
  "count20 (day_row_of d cols rp2 rp10 rp20) \<le> count10 (day_row_of d cols rp2 rp10 rp20)
   \<and> count10 (day_row_of d cols rp2 rp10 rp20) \<le> count2 (day_row_of d cols rp2 rp10 rp20)
   \<and> percent20 (day_row_of d cols rp2 rp10 rp20) \<le> percent10 (day_row_of d cols rp2 rp10 rp20)
   \<and> percent10 (day_row_of d cols rp2 rp10 rp20) \<le> percent2 (day_row_of d cols rp2 rp10 rp20)"
proof -
  let ?n20 = "length (filter (\<lambda>c. exceeds (snd c) rp20) cols)"
  let ?n10 = "length (filter (\<lambda>c. exceeds (snd c) rp20 \<or> exceeds (snd c) rp10) cols)"
  let ?n2 = "length (filter (\<lambda>c. exceeds (snd c) rp20 \<or> exceeds (snd c) rp10 \<or> exceeds (snd c) rp2) cols)"
  have a: "?n20 \<le> ?n10"
    by (induction cols) auto
  have b: "?n10 \<le> ?n2"
    by (induction cols) auto
  from a have "real ?n20 * 100 / 52 \<le> real ?n10 * 100 / 52" by simp
  then have c: "py_round (real ?n20 * 100 / 52) \<le> py_round (real ?n10 * 100 / 52)"
    by (rule py_round_mono)
  from b have "real ?n10 * 100 / 52 \<le> real ?n2 * 100 / 52" by simp
  then have d: "py_round (real ?n10 * 100 / 52) \<le> py_round (real ?n2 * 100 / 52)"
    by (rule py_round_mono)
  from a b c d show ?thesis by (simp add: day_row_of_def Let_def)
qed

lemma severity_levels:
  "(3 \<le> severity flows rp2 rp10 rp20) = exceeds flows rp20"
  "(2 \<le> severity flows rp2 rp10 rp20) = (exceeds flows rp20 \<or> exceeds flows rp10)"
  "(Suc 0 \<le> severity flows rp2 rp10 rp20)
     = (exceeds flows rp20 \<or> exceeds flows rp10 \<or> exceeds flows rp2)"
  by (simp_all add: severity_def)

lemma probability_rows_days:
  assumes "probability_rows stats ensembles rperiods = Inr rows"
  shows "\<exists>rp2 rp10 rp20 dates s e t0 t1.
      get_column stats ''datetime'' = Inr dates \<and> first_item dates = Inr s
      \<and> last_item dates = Inr e \<and> strptime s = Inr t0 \<and> strptime e = Inr t1
      \<and> read_thresholds rperiods = Inr (rp2, rp10, rp20)
      \<and> length rows = nat (span_days t1 t0 + 2) - 1
      \<and> (\<forall>i<length rows. \<exists>tmp.
            loc_slice ensembles (add_days t0 (int i)) (add_days t0 (int i + 1)) = Inr tmp
            \<and> rows ! i = day_row_of (add_days t0 (int i)) (df_columns tmp) rp2 rp10 rp20)"
proof -
  from assms obtain dates s e t0 t1 rp2 rp10 rp20 where
    d: "get_column stats ''datetime'' = Inr dates" "first_item dates = Inr s"
       "last_item dates = Inr e" "strptime s = Inr t0" "strptime e = Inr t1" and
    th: "read_thresholds rperiods = Inr (rp2, rp10, rp20)" and
    loop: "days_loop (map (\<lambda>i. add_days t0 (int i)) [0..<nat (span_days t1 t0 + 2)])
             ensembles rp2 rp10 rp20 = Inr rows"
    by (auto simp: probability_rows_def Let_def dest!: and_then_Inr)
  let ?u = "map (\<lambda>i. add_days t0 (int i)) [0..<nat (span_days t1 t0 + 2)]"
  from days_loop_rows[OF loop] have
    len: "length rows = length ?u - 1" and
    rows: "\<forall>i<length rows. \<exists>tmp. loc_slice ensembles (?u ! i) (?u ! Suc i) = Inr tmp
        \<and> rows ! i = day_row_of (?u ! i) (df_columns tmp) rp2 rp10 rp20"
    by auto
  have "\<forall>i<length rows. \<exists>tmp.
            loc_slice ensembles (add_days t0 (int i)) (add_days t0 (int i + 1)) = Inr tmp
            \<and> rows ! i = day_row_of (add_days t0 (int i)) (df_columns tmp) rp2 rp10 rp20"
  proof (intro allI impI)
    fix i assume i: "i < length rows"
    with len have "i < nat (span_days t1 t0 + 2)" "Suc i < nat (span_days t1 t0 + 2)"
      by simp_all
    then have "?u ! i = add_days t0 (int i)" "?u ! Suc i = add_days t0 (int i + 1)"
      by (simp_all add: add.commute)
    with rows i show "\<exists>tmp.
            loc_slice ensembles (add_days t0 (int i)) (add_days t0 (int i + 1)) = Inr tmp
            \<and> rows ! i = day_row_of (add_days t0 (int i)) (df_columns tmp) rp2 rp10 rp20"
      by metis
  qed
  with d th len show ?thesis by auto
qed

text \<open>
  Claim C3. \<^verbatim>\<open>probabilities_table\<close> classifies each ensemble member by the
  highest threshold its flow exceeds in the day's sub-window: a member exceeding the
  20-year threshold adds to all three tallies, one exceeding only the 10-year threshold
  to the 2-year and 10-year tallies, one exceeding only the 2-year threshold to the
  2-year tally, any other to none. Hence, for every day of the table, the 2-year count
  is at least the 10-year count, which is at least the 20-year count; each percentage
  is \<open>round(count * 100 / 52)\<close>, and the percentages are ordered in the same way. Day
  \<open>i\<close> of the table is the window from the first timestamp plus \<open>i\<close> days to the
  first timestamp plus \<open>i + 1\<close> days.
\<close>

theorem exceedance_rollup:
  "tally [(name, flows)] rp2' rp10' rp20' (n2, n10, n20) =
     (if exceeds flows rp20' then (n2 + 1, n10 + 1, n20 + 1)
      else if exceeds flows rp10' then (n2 + 1, n10 + 1, n20)
      else if exceeds flows rp2' then (n2 + 1, n10, n20)
      else (n2, n10, n20))
   \<and> (probabilities_table stats ensembles rperiods = Inr ctx \<longrightarrow>
       (\<exists>(rows :: day_row list) rp2 rp10 rp20 dates s e t0 t1.
          get_column stats ''datetime'' = Inr dates \<and> first_item dates = Inr s
          \<and> last_item dates = Inr e \<and> strptime s = Inr t0 \<and> strptime e = Inr t1
          \<and> read_thresholds rperiods = Inr (rp2, rp10, rp20)
          \<and> length rows = nat (span_days t1 t0 + 2) - 1
          \<and> ctx_days ctx = map day_label rows
          \<and> ctx_r2 ctx = map percent2 rows
          \<and> ctx_r10 ctx = map percent10 rows
          \<and> ctx_r20 ctx = map percent20 rows
          \<and> (\<forall>i<length rows. \<exists>tmp.
                loc_slice ensembles (add_days t0 (int i)) (add_days t0 (int i + 1)) = Inr tmp
                \<and> day_label (rows ! i) = strftime_b_d (add_days t0 (int i))
                \<and> count2 (rows ! i)
                    = length (filter (\<lambda>c. 1 \<le> severity (snd c) rp2 rp10 rp20) (df_columns tmp))
                \<and> count10 (rows ! i)
                    = length (filter (\<lambda>c. 2 \<le> severity (snd c) rp2 rp10 rp20) (df_columns tmp))
                \<and> count20 (rows ! i)
                    = length (filter (\<lambda>c. 3 \<le> severity (snd c) rp2 rp10 rp20) (df_columns tmp))
                \<and> count20 (rows ! i) \<le> count10 (rows ! i)
                \<and> count10 (rows ! i) \<le> count2 (rows ! i)
                \<and> percent2 (rows ! i) = py_round (real (count2 (rows ! i)) * 100 / 52)
                \<and> percent10 (rows ! i) = py_round (real (count10 (rows ! i)) * 100 / 52)
                \<and> percent20 (rows ! i) = py_round (real (count20 (rows ! i)) * 100 / 52)
                \<and> percent20 (rows ! i) \<le> percent10 (rows ! i)
                \<and> percent10 (rows ! i) \<le> percent2 (rows ! i))))"
proof (intro conjI impI)
  show "tally [(name, flows)] rp2' rp10' rp20' (n2, n10, n20) =
     (if exceeds flows rp20' then (n2 + 1, n10 + 1, n20 + 1)
      else if exceeds flows rp10' then (n2 + 1, n10 + 1, n20)
      else if exceeds flows rp2' then (n2 + 1, n10, n20)
      else (n2, n10, n20))"
    by simp
next
  assume "probabilities_table stats ensembles rperiods = Inr ctx"
  then obtain rows where pr: "probability_rows stats ensembles rperiods = Inr rows"
    and ctx: "ctx = \<lparr>ctx_days = map day_label rows, ctx_r2 = map percent2 rows,
                     ctx_r10 = map percent10 rows, ctx_r20 = map percent20 rows\<rparr>"
    by (auto simp: probabilities_table_def dest!: and_then_Inr)
  from probability_rows_days[OF pr] obtain rp2 rp10 rp20 dates s e t0 t1 where
    d: "get_column stats ''datetime'' = Inr dates" "first_item dates = Inr s"
       "last_item dates = Inr e" "strptime s = Inr t0" "strptime e = Inr t1"
       "read_thresholds rperiods = Inr (rp2, rp10, rp20)"
       "length rows = nat (span_days t1 t0 + 2) - 1" and
    rows: "\<forall>i<length rows. \<exists>tmp.
            loc_slice ensembles (add_days t0 (int i)) (add_days t0 (int i + 1)) = Inr tmp
            \<and> rows ! i = day_row_of (add_days t0 (int i)) (df_columns tmp) rp2 rp10 rp20"
    by blast
  have per_day: "\<forall>i<length rows. \<exists>tmp.
                loc_slice ensembles (add_days t0 (int i)) (add_days t0 (int i + 1)) = Inr tmp
                \<and> day_label (rows ! i) = strftime_b_d (add_days t0 (int i))
                \<and> count2 (rows ! i)
                    = length (filter (\<lambda>c. 1 \<le> severity (snd c) rp2 rp10 rp20) (df_columns tmp))
                \<and> count10 (rows ! i)
                    = length (filter (\<lambda>c. 2 \<le> severity (snd c) rp2 rp10 rp20) (df_columns tmp))
                \<and> count20 (rows ! i)
                    = length (filter (\<lambda>c. 3 \<le> severity (snd c) rp2 rp10 rp20) (df_columns tmp))
                \<and> count20 (rows ! i) \<le> count10 (rows ! i)
                \<and> count10 (rows ! i) \<le> count2 (rows ! i)
                \<and> percent2 (rows ! i) = py_round (real (count2 (rows ! i)) * 100 / 52)
                \<and> percent10 (rows ! i) = py_round (real (count10 (rows ! i)) * 100 / 52)
                \<and> percent20 (rows ! i) = py_round (real (count20 (rows ! i)) * 100 / 52)
                \<and> percent20 (rows ! i) \<le> percent10 (rows ! i)
                \<and> percent10 (rows ! i) \<le> percent2 (rows ! i)"
  proof (intro allI impI)
    fix i assume "i < length rows"
    with rows obtain tmp where
      tmp: "loc_slice ensembles (add_days t0 (int i)) (add_days t0 (int i + 1)) = Inr tmp" and
      row: "rows ! i = day_row_of (add_days t0 (int i)) (df_columns tmp) rp2 rp10 rp20"
      by blast
    from day_row_of_order[of "add_days t0 (int i)" "df_columns tmp" rp2 rp10 rp20] row
    have ord: "count20 (rows ! i) \<le> count10 (rows ! i)" "count10 (rows ! i) \<le> count2 (rows ! i)"
      "percent20 (rows ! i) \<le> percent10 (rows ! i)" "percent10 (rows ! i) \<le> percent2 (rows ! i)"
      by simp_all
    have vals: "day_label (rows ! i) = strftime_b_d (add_days t0 (int i))"
      "count2 (rows ! i)
         = length (filter (\<lambda>c. 1 \<le> severity (snd c) rp2 rp10 rp20) (df_columns tmp))"
      "count10 (rows ! i)
         = length (filter (\<lambda>c. 2 \<le> severity (snd c) rp2 rp10 rp20) (df_columns tmp))"
      "count20 (rows ! i)
         = length (filter (\<lambda>c. 3 \<le> severity (snd c) rp2 rp10 rp20) (df_columns tmp))"
      "percent2 (rows ! i) = py_round (real (count2 (rows ! i)) * 100 / 52)"
      "percent10 (rows ! i) = py_round (real (count10 (rows ! i)) * 100 / 52)"
      "percent20 (rows ! i) = py_round (real (count20 (rows ! i)) * 100 / 52)"
      by (simp_all add: row day_row_of_def Let_def severity_levels)
    from tmp ord vals show "\<exists>tmp.
                loc_slice ensembles (add_days t0 (int i)) (add_days t0 (int i + 1)) = Inr tmp
                \<and> day_label (rows ! i) = strftime_b_d (add_days t0 (int i))
                \<and> count2 (rows ! i)
                    = length (filter (\<lambda>c. 1 \<le> severity (snd c) rp2 rp10 rp20) (df_columns tmp))
                \<and> count10 (rows ! i)
                    = length (filter (\<lambda>c. 2 \<le> severity (snd c) rp2 rp10 rp20) (df_columns tmp))
                \<and> count20 (rows ! i)
                    = length (filter (\<lambda>c. 3 \<le> severity (snd c) rp2 rp10 rp20) (df_columns tmp))
                \<and> count20 (rows ! i) \<le> count10 (rows ! i)
                \<and> count10 (rows ! i) \<le> count2 (rows ! i)
                \<and> percent2 (rows ! i) = py_round (real (count2 (rows ! i)) * 100 / 52)
                \<and> percent10 (rows ! i) = py_round (real (count10 (rows ! i)) * 100 / 52)
                \<and> percent20 (rows ! i) = py_round (real (count20 (rows ! i)) * 100 / 52)
                \<and> percent20 (rows ! i) \<le> percent10 (rows ! i)
                \<and> percent10 (rows ! i) \<le> percent2 (rows ! i)"
      by blast
  qed
  show "\<exists>(rows :: day_row list) rp2 rp10 rp20 dates s e t0 t1.
          get_column stats ''datetime'' = Inr dates \<and> first_item dates = Inr s
          \<and> last_item dates = Inr e \<and> strptime s = Inr t0 \<and> strptime e = Inr t1
          \<and> read_thresholds rperiods = Inr (rp2, rp10, rp20)
          \<and> length rows = nat (span_days t1 t0 + 2) - 1
          \<and> ctx_days ctx = map day_label rows
          \<and> ctx_r2 ctx = map percent2 rows
          \<and> ctx_r10 ctx = map percent10 rows
          \<and> ctx_r20 ctx = map percent20 rows
          \<and> (\<forall>i<length rows. \<exists>tmp.
                loc_slice ensembles (add_days t0 (int i)) (add_days t0 (int i + 1)) = Inr tmp
                \<and> day_label (rows ! i) = strftime_b_d (add_days t0 (int i))
                \<and> count2 (rows ! i)
                    = length (filter (\<lambda>c. 1 \<le> severity (snd c) rp2 rp10 rp20) (df_columns tmp))
                \<and> count10 (rows ! i)
                    = length (filter (\<lambda>c. 2 \<le> severity (snd c) rp2 rp10 rp20) (df_columns tmp))
                \<and> count20 (rows ! i)
                    = length (filter (\<lambda>c. 3 \<le> severity (snd c) rp2 rp10 rp20) (df_columns tmp))
                \<and> count20 (rows ! i) \<le> count10 (rows ! i)
                \<and> count10 (rows ! i) \<le> count2 (rows ! i)
                \<and> percent2 (rows ! i) = py_round (real (count2 (rows ! i)) * 100 / 52)
                \<and> percent10 (rows ! i) = py_round (real (count10 (rows ! i)) * 100 / 52)
                \<and> percent20 (rows ! i) = py_round (real (count20 (rows ! i)) * 100 / 52)
                \<and> percent20 (rows ! i) \<le> percent10 (rows ! i)
                \<and> percent10 (rows ! i) \<le> percent2 (rows ! i))"
    apply (rule exI[of _ rows], rule exI[of _ rp2], rule exI[of _ rp10], rule exI[of _ rp20],
           rule exI[of _ dates], rule exI[of _ s], rule exI[of _ e], rule exI[of _ t0],
           rule exI[of _ t1])
    using d ctx per_day by simp
qed

theorem exceedance_rollup_witness:
  "probabilities_table exceedance_stats exceedance_ensembles descending_rperiods
     = Inr sample_context
   \<and>
       (\<exists>(rows :: day_row list) rp2 rp10 rp20 dates s e t0 t1.
          get_column exceedance_stats ''datetime'' = Inr dates \<and> first_item dates = Inr s
          \<and> last_item dates = Inr e \<and> strptime s = Inr t0 \<and> strptime e = Inr t1
          \<and> read_thresholds descending_rperiods = Inr (rp2, rp10, rp20)
          \<and> length rows = nat (span_days t1 t0 + 2) - 1
          \<and> ctx_days sample_context = map day_label rows
          \<and> ctx_r2 sample_context = map percent2 rows
          \<and> ctx_r10 sample_context = map percent10 rows
          \<and> ctx_r20 sample_context = map percent20 rows
          \<and> (\<forall>i<length rows. \<exists>tmp.
                loc_slice exceedance_ensembles (add_days t0 (int i)) (add_days t0 (int i + 1)) = Inr tmp
                \<and> day_label (rows ! i) = strftime_b_d (add_days t0 (int i))
                \<and> count2 (rows ! i)
                    = length (filter (\<lambda>c. 1 \<le> severity (snd c) rp2 rp10 rp20) (df_columns tmp))
                \<and> count10 (rows ! i)
                    = length (filter (\<lambda>c. 2 \<le> severity (snd c) rp2 rp10 rp20) (df_columns tmp))
                \<and> count20 (rows ! i)
                    = length (filter (\<lambda>c. 3 \<le> severity (snd c) rp2 rp10 rp20) (df_columns tmp))
                \<and> count20 (rows ! i) \<le> count10 (rows ! i)
                \<and> count10 (rows ! i) \<le> count2 (rows ! i)
                \<and> percent2 (rows ! i) = py_round (real (count2 (rows ! i)) * 100 / 52)
                \<and> percent10 (rows ! i) = py_round (real (count10 (rows ! i)) * 100 / 52)
                \<and> percent20 (rows ! i) = py_round (real (count20 (rows ! i)) * 100 / 52)
                \<and> percent20 (rows ! i) \<le> percent10 (rows ! i)
                \<and> percent10 (rows ! i) \<le> percent2 (rows ! i)))"
proof (rule conjI)
  show run: "probabilities_table exceedance_stats exceedance_ensembles descending_rperiods
     = Inr sample_context"
    by code_simp
  from exceedance_rollup [THEN conjunct2, rule_format, OF run]
  show "(\<exists>(rows :: day_row list) rp2 rp10 rp20 dates s e t0 t1.
          get_column exceedance_stats ''datetime'' = Inr dates \<and> first_item dates = Inr s
          \<and> last_item dates = Inr e \<and> strptime s = Inr t0 \<and> strptime e = Inr t1
          \<and> read_thresholds descending_rperiods = Inr (rp2, rp10, rp20)
          \<and> length rows = nat (span_days t1 t0 + 2) - 1
          \<and> ctx_days sample_context = map day_label rows
          \<and> ctx_r2 sample_context = map percent2 rows
          \<and> ctx_r10 sample_context = map percent10 rows
          \<and> ctx_r20 sample_context = map percent20 rows
          \<and> (\<forall>i<length rows. \<exists>tmp.
                loc_slice exceedance_ensembles (add_days t0 (int i)) (add_days t0 (int i + 1)) = Inr tmp
                \<and> day_label (rows ! i) = strftime_b_d (add_days t0 (int i))
                \<and> count2 (rows ! i)
                    = length (filter (\<lambda>c. 1 \<le> severity (snd c) rp2 rp10 rp20) (df_columns tmp))
                \<and> count10 (rows ! i)
                    = length (filter (\<lambda>c. 2 \<le> severity (snd c) rp2 rp10 rp20) (df_columns tmp))
                \<and> count20 (rows ! i)
                    = length (filter (\<lambda>c. 3 \<le> severity (snd c) rp2 rp10 rp20) (df_columns tmp))
                \<and> count20 (rows ! i) \<le> count10 (rows ! i)
                \<and> count10 (rows ! i) \<le> count2 (rows ! i)
                \<and> percent2 (rows ! i) = py_round (real (count2 (rows ! i)) * 100 / 52)
                \<and> percent10 (rows ! i) = py_round (real (count10 (rows ! i)) * 100 / 52)
                \<and> percent20 (rows ! i) = py_round (real (count20 (rows ! i)) * 100 / 52)
                \<and> percent20 (rows ! i) \<le> percent10 (rows ! i)
                \<and> percent10 (rows ! i) \<le> percent2 (rows ! i)))" .
qed

subsection \<open>Thresholds by position\<close>

text \<open>
  Claim C9. \<^verbatim>\<open>probabilities_table\<close> reads the thresholds by position: the 2-year
  threshold from the first column of the row at position 3, the 10-year threshold from
  the row at position 2 and the 20-year threshold from the row at position 1, whatever
  the column is called and whatever the rows are labelled. A table of fewer than four
  rows is refused with an index error; a table of four rows in another order is
  accepted, and its values are taken as thresholds in the order of the positions. The
  thresholds so read are the ones the day loop of the table uses.
\<close>

theorem thresholds_read_by_position:
  "(length (df_index rperiods) < 4 \<longrightarrow>
      read_thresholds rperiods = Inl (IndexError ''single positional indexer is out-of-bounds''))
   \<and> (4 \<le> length (df_index rperiods) \<and> df_columns rperiods = (name, col) # others
        \<and> 4 \<le> length col \<longrightarrow>
      read_thresholds rperiods = Inr (col ! 3, col ! 2, col ! 1))
   \<and> (get_column stats ''datetime'' = Inr dates \<and> first_item dates = Inr s
        \<and> last_item dates = Inr e \<and> strptime s = Inr t0 \<and> strptime e = Inr t1 \<longrightarrow>
      probability_rows stats ensembles rperiods =
        (case read_thresholds rperiods of
           Inl err \<Rightarrow> Inl err
         | Inr (rp2, rp10, rp20) \<Rightarrow>
             days_loop (map (\<lambda>i. add_days t0 (int i)) [0..<nat (span_days t1 t0 + 2)])
               ensembles rp2 rp10 rp20))"
  by (auto simp: read_thresholds_def iloc_first_def and_then_def probability_rows_def Let_def
           split: sum.splits)

theorem thresholds_read_by_position_witness:
  "read_thresholds sample_rperiods
     = Inl (IndexError ''single positional indexer is out-of-bounds'')
   \<and> read_thresholds descending_rperiods = Inr (Some 12, Some 20, Some 30)
   \<and> read_thresholds ascending_rperiods = Inr (Some 40, Some 30, Some 20)
   \<and> probability_rows exceedance_stats exceedance_ensembles ascending_rperiods =
        days_loop (map (\<lambda>i. add_days (make_datetime 2020 5 12 0) (int i))
                     [0..<nat (span_days (make_datetime 2020 5 13 0) (make_datetime 2020 5 12 0) + 2)])
          exceedance_ensembles (Some 40) (Some 30) (Some 20)"
proof -
  note main = thresholds_read_by_position
  have 1: "read_thresholds sample_rperiods
     = Inl (IndexError ''single positional indexer is out-of-bounds'')"
    using main[THEN conjunct1, rule_format, of sample_rperiods]
    by (simp add: sample_rperiods_def)
  have 2: "read_thresholds descending_rperiods = Inr (Some 12, Some 20, Some 30)"
    using main[THEN conjunct2, THEN conjunct1, rule_format, of descending_rperiods
        "''12341234''" "[Some 40, Some 30, Some 20, Some 12]" "[]"]
    by (simp add: descending_rperiods_def)
  have 3: "read_thresholds ascending_rperiods = Inr (Some 40, Some 30, Some 20)"
    using main[THEN conjunct2, THEN conjunct1, rule_format, of ascending_rperiods
        "''12341234''" "[Some 12, Some 20, Some 30, Some 40]" "[]"]
    by (simp add: ascending_rperiods_def)
  have d: "get_column exceedance_stats ''datetime''
             = Inr [''2020-05-12 00:00:00'', ''2020-05-12 12:00:00'', ''2020-05-13 00:00:00'']"
    "first_item [''2020-05-12 00:00:00'', ''2020-05-12 12:00:00'', ''2020-05-13 00:00:00'']
       = Inr ''2020-05-12 00:00:00''"
    "last_item [''2020-05-12 00:00:00'', ''2020-05-12 12:00:00'', ''2020-05-13 00:00:00'']
       = Inr ''2020-05-13 00:00:00''"
    "strptime ''2020-05-12 00:00:00'' = Inr (make_datetime 2020 5 12 0)"
    "strptime ''2020-05-13 00:00:00'' = Inr (make_datetime 2020 5 13 0)"
    by code_simp+
  have 4: "probability_rows exceedance_stats exceedance_ensembles ascending_rperiods =
        days_loop (map (\<lambda>i. add_days (make_datetime 2020 5 12 0) (int i))
                     [0..<nat (span_days (make_datetime 2020 5 13 0) (make_datetime 2020 5 12 0) + 2)])
          exceedance_ensembles (Some 40) (Some 30) (Some 20)"
    using main[THEN conjunct2, THEN conjunct2, rule_format, OF conjI[OF d(1) conjI[OF d(2)
          conjI[OF d(3) conjI[OF d(4) d(5)]]]], of exceedance_ensembles ascending_rperiods]
    by (simp only: 3 sum.case prod.case)
  from 1 2 3 4 show ?thesis by blast
qed

subsection \<open>Flow-duration curve\<close>

lemma filter_three_way:
  "length (filter (\<lambda>y. y < x) xs) + length (filter (\<lambda>y. y = x) xs)
     + length (filter (\<lambda>y. x < y) xs) = length xs" for x :: real
  by (induction xs) auto

lemma length_filter_rev_sort:
  "length (filter P (rev (sort xs))) = length (filter P xs)" for xs :: "real list"
  by (simp add: filter_sort flip: rev_filter)

lemma numbers_map_Some [simp]: "numbers (map Some xs) = xs"
  by (induction xs) (simp_all add: numbers_def List.map_filter_simps)

lemma no_None_numbers: "None \<notin> set col \<Longrightarrow> map Some (numbers col) = col"
proof (induction col)
  case Nil
  then show ?case by (simp add: numbers_def List.map_filter_simps)
next
  case (Cons a col)
  then obtain x where "a = Some x" by (cases a) auto
  with Cons show ?case by (simp add: numbers_def List.map_filter_simps)
qed

lemma length_numbers: "None \<notin> set col \<Longrightarrow> length (numbers col) = length col"
  by (metis length_map no_None_numbers)

lemma sort_values_no_None:
  "None \<notin> set col \<Longrightarrow> sort_values_descending col = map Some (rev (sort (numbers col)))"
proof -
  assume "None \<notin> set col"
  then have "\<forall>v\<in>set col. \<not> (v = None)" by metis
  then have "filter (\<lambda>v. v = None) col = []"
    unfolding filter_empty_conv by blast
  then show ?thesis by (simp add: sort_values_descending_def)
qed

lemma ranks_of_sorted:
  assumes "None \<notin> set col"
  shows "map (map_option (\<lambda>r. r / (real (length (sort_values_descending col)) + 1)))
           (map (map_option (\<lambda>r. real (length col) - r))
              (rankdata_average (sort_values_descending col)))
         = map Some (exceedance_probabilities (numbers col))"
proof -
  let ?xs = "numbers col"
  let ?s = "rev (sort ?xs)"
  have s: "sort_values_descending col = map Some ?s"
    using assms by (rule sort_values_no_None)
  have len: "length ?xs = length col" using assms by (rule length_numbers)
  have rank: "real (length col)
                - (real (length (filter (\<lambda>y. y < x) ?s))
                   + (real (length (filter (\<lambda>y. y = x) ?s)) + 1) / 2)
              = average_rank_descending ?xs x - 1" for x
  proof -
    have "real (length (filter (\<lambda>y. y < x) ?xs)) + real (length (filter (\<lambda>y. y = x) ?xs))
          + real (length (filter (\<lambda>y. x < y) ?xs)) = real (length col)"
      using filter_three_way[of x ?xs] len by (metis of_nat_add)
    then show ?thesis
      by (simp add: average_rank_descending_def length_filter_rev_sort field_simps)
  qed
  have "None \<notin> set (map Some ?s)" by auto
  then show ?thesis
    unfolding s exceedance_probabilities_def
    by (simp add: rankdata_average_def rank len)
qed

lemma emit_not_Json [simp]: "emit fmt fig \<noteq> Json d" "Json d \<noteq> emit fmt fig"
  by (auto simp: emit_def)

text \<open>
  Claim C7, as stated: the flows in descending order are paired with the probabilities
  \<open>rank(i) / (N + 1)\<close>, the ranks breaking ties by their average. The code divides
  \<open>N\<close> minus the ascending rank by \<open>N + 1\<close>, which is the descending rank less
  one: a single observation is paired with the probability 0, while its rank, in
  either direction, is 1 and \<open>rank / (N + 1)\<close> is one half.
\<close>

theorem flow_duration_rank_counts_from_zero:
  "flow_duration_curve_plot (DataFrame single_hist) json_kwargs
     = (Inr (Json [(''reach_id'', PV PyNone), (''drain_area'', PV PyNone),
                   (''x_probability'', PCells [Some 0]),
                   (''y_flow'', PCells [Some 5]),
                   (''y_max'', PCell (Some 5))])
        :: pyerror + ((string \<times> timestamp pdval) list, (cell, unit) figure) plot_result)
   \<and> average_rank_descending [5] 5 / (real (length [5 :: real]) + 1) = 1 / 2
   \<and> average_rank_ascending [5] 5 / (real (length [5 :: real]) + 1) = 1 / 2"
  by (simp add: flow_duration_curve_plot_def single_hist_def json_kwargs_def eval_defs
        sort_values_descending_def numbers_def List.map_filter_simps rankdata_average_def
        average_rank_descending_def average_rank_ascending_def)

text \<open>
  Claim C7, amended. For every historical-simulation table whose flow column has no
  missing value, \<^verbatim>\<open>flow_duration_curve_plot\<close> pairs the flows, sorted in
  descending order, with the probabilities \<open>(rank(i) - 1) / (N + 1)\<close>, where \<open>N\<close>
  is the number of observations and \<open>rank(i)\<close> is the rank of the flow in descending
  order counted from 1, tied flows sharing the average of their ranks (this is \<open>N\<close>
  minus the ascending average rank, as the code computes it). The chart is a single
  trace of these pairs and has no severity bands.
\<close>

theorem flow_duration_curve:
  assumes "get_column hist ''streamflow (m^3/s)'' = Inr col"
    and "None \<notin> set col"
    and "length (df_index hist) = length col"
    and "flow_duration_curve_plot (DataFrame hist) kwargs = Inr res"
  shows "sorted_wrt (\<lambda>a b. b \<le> a) (rev (sort (numbers col)))
     \<and> (\<forall>plot_data. res = Json plot_data \<longrightarrow>
          map_of plot_data ''y_flow'' = Some (PCells (map Some (rev (sort (numbers col)))))
          \<and> map_of plot_data ''x_probability''
              = Some (PCells (map Some (exceedance_probabilities (numbers col)))))
     \<and> (\<forall>fig. figure_of res = Some fig \<longrightarrow>
          shapes (fig_layout fig) = []
          \<and> fig_data fig =
              [\<lparr>trace_name = None,
                trace_x = map Some (exceedance_probabilities (numbers col)),
                trace_y = map Some (rev (sort (numbers col))),
                trace_style = []\<rparr>])"
proof -
  have sorted: "sorted_wrt (\<lambda>a b. b \<le> a) (rev (sort (numbers col)))"
    by (simp add: sorted_wrt_rev)
  have s: "sort_values_descending col = map Some (rev (sort (numbers col)))"
    using assms(2) by (rule sort_values_no_None)
  have p: "map (map_option (\<lambda>r. r / (real (length (sort_values_descending col)) + 1)))
           (map (map_option (\<lambda>r. real (length (df_index hist)) - r))
              (rankdata_average (sort_values_descending col)))
         = map Some (exceedance_probabilities (numbers col))"
    using ranks_of_sorted[OF assms(2)] by (simp only: assms(3))
  from assms(4) assms(1) have
    "(\<forall>plot_data. res = Json plot_data \<longrightarrow>
          map_of plot_data ''y_flow'' = Some (PCells (sort_values_descending col))
          \<and> map_of plot_data ''x_probability''
              = Some (PCells (map (map_option (\<lambda>r. r / (real (length (sort_values_descending col)) + 1)))
           (map (map_option (\<lambda>r. real (length (df_index hist)) - r))
              (rankdata_average (sort_values_descending col))))))
     \<and> (\<forall>fig. figure_of res = Some fig \<longrightarrow>
          shapes (fig_layout fig) = []
          \<and> fig_data fig =
              [\<lparr>trace_name = None,
                trace_x = map (map_option (\<lambda>r. r / (real (length (sort_values_descending col)) + 1)))
           (map (map_option (\<lambda>r. real (length (df_index hist)) - r))
              (rankdata_average (sort_values_descending col))),
                trace_y = sort_values_descending col,
                trace_style = []\<rparr>])"
    by (auto simp: flow_duration_curve_plot_def Let_def split: if_splits
             dest!: and_then_Inr figure_of_emit)
  then show ?thesis
    unfolding p unfolding s using sorted by simp
qed

theorem flow_duration_curve_witness:
  "get_column sample_hist ''streamflow (m^3/s)'' = Inr [Some 7, Some 9, Some 7]
   \<and> None \<notin> set [Some 7, Some 9, Some (7 :: real)]
   \<and> length (df_index sample_hist) = length [Some 7, Some 9, Some (7 :: real)]
   \<and> flow_duration_curve_plot (DataFrame sample_hist) json_kwargs
       = (Inr (Json [(''reach_id'', PV PyNone), (''drain_area'', PV PyNone),
                     (''x_probability'', PCells [Some 0, Some (3 / 8), Some (3 / 8)]),
                     (''y_flow'', PCells [Some 9, Some 7, Some 7]),
                     (''y_max'', PCell (Some 9))])
          :: pyerror + ((string \<times> timestamp pdval) list, (cell, unit) figure) plot_result)
   \<and> map Some (rev (sort (numbers [Some 7, Some 9, Some 7]))) = [Some 9, Some 7, Some 7]
   \<and> map Some (exceedance_probabilities (numbers [Some 7, Some 9, Some 7]))
       = [Some 0, Some (3 / 8), Some (3 / 8)]"
proof -
  have h1: "get_column sample_hist ''streamflow (m^3/s)'' = Inr [Some 7, Some 9, Some 7]"
    by (simp add: sample_hist_def get_column_def)
  have h2: "None \<notin> set [Some 7, Some 9, Some (7 :: real)]" by simp
  have h3: "length (df_index sample_hist) = length [Some 7, Some 9, Some (7 :: real)]"
    by (simp add: sample_hist_def)
  have h4: "flow_duration_curve_plot (DataFrame sample_hist) json_kwargs
       = (Inr (Json [(''reach_id'', PV PyNone), (''drain_area'', PV PyNone),
                     (''x_probability'', PCells [Some 0, Some (3 / 8), Some (3 / 8)]),
                     (''y_flow'', PCells [Some 9, Some 7, Some 7]),
                     (''y_max'', PCell (Some 9))])
          :: pyerror + ((string \<times> timestamp pdval) list, (cell, unit) figure) plot_result)"
    by (simp add: flow_duration_curve_plot_def sample_hist_def json_kwargs_def eval_defs
        sort_values_descending_def numbers_def List.map_filter_simps rankdata_average_def)
  from flow_duration_curve [OF h1 h2 h3 h4] h1 h2 h3 h4 show ?thesis
    by simp
qed

subsection \<open>Severity bands\<close>

text \<open>
  Claim C1. For all numeric start and end times, thresholds \<open>r2\<close>, \<open>r10\<close>, \<open>r20\<close>
  and observed maximum \<open>y_max\<close>, the band builder returns exactly three bands, in the
  order \<open>[r2, r10)\<close>, \<open>[r10, r20)\<close>, \<open>[r20, 1.2 * y_max)\<close>, each spanning the
  whole time range from start to end. The upper bound of the third band is
  \<open>1.2 * y_max\<close> whatever its relation to \<open>r20\<close>: the band is neither dropped nor
  clamped when \<open>1.2 * y_max < r20\<close>.
\<close>

theorem rperiod_shapes_three_bands:
  "length (rperiod_shapes startdate enddate
             (Scalar (Some r2)) (Scalar (Some r10)) (Scalar (Some r20)) (Some y_max)) = 3
   \<and> map (\<lambda>b. (x0 b, x1 b, y0 b, y1 b))
        (rperiod_shapes startdate enddate
           (Scalar (Some r2)) (Scalar (Some r10)) (Scalar (Some r20)) (Some y_max))
     = [ (startdate, enddate, Scalar (Some r2), Scalar (Some r10)),
         (startdate, enddate, Scalar (Some r10), Scalar (Some r20)),
         (startdate, enddate, Scalar (Some r20), Scalar (Some (1.2 * y_max))) ]"
  by (simp add: rperiod_shapes_def times_cell_def)

subsection \<open>Chart titles\<close>

text \<open>
  Claim C10. Title composition treats falsy metadata as absent: with
  \<open>reach_id = 0\<close> the title is the one built without a reach id, and with an empty
  drainage-area string it is the one built without a drainage area. In general the
  title is the base title, followed by the stream-id line when the reach id is truthy,
  followed by the drainage-area line when the drainage area is truthy, in that order.
\<close>

theorem build_title_falsy_absent:
  "build_title base (PyInt 0) drain_area = build_title base PyNone drain_area
   \<and> build_title base reach_id (PyStr []) = build_title base reach_id PyNone
   \<and> build_title base PyNone PyNone = base
   \<and> build_title base reach_id drain_area =
       base
       @ (if truthy reach_id then ''<br>Stream ID: '' @ py_str reach_id else [])
       @ (if truthy drain_area
          then ''<br>Upstream Drainage Area: '' @ py_str drain_area else [])"
  by (simp add: build_title_def)

end
